theory Spec2Isabelle
  imports Main
begin

section \<open>The conversation orchestration engine (app/core/langgraph/graph.py)\<close>

text \<open>
  A shallow embedding of \<^verbatim>\<open>LangGraphAgent\<close>. Python exceptions are values of
  \<open>error\<close>; a method that may raise returns \<open>error + 'a\<close> with \<open>Inl\<close> the exception.
  Collaborators whose code is outside the module (the model inference client, the tool
  registry, the prompt helpers, the memory service, the MongoDB saver) are fields of the
  record \<open>env\<close>, so every theorem holds for all of their behaviours. Calls to the logger
  are kept in the methods that thread the agent's state. The two node functions
  \<^verbatim>\<open>_chat\<close> and \<^verbatim>\<open>_tool_call\<close> are functions of the graph state alone: their logger
  calls, and all metrics and Sentry calls, have no effect on any value and are left out.
\<close>

subsection \<open>Errors\<close>

datatype error =
    KeyError string
  | IndexError string
  | AttributeError string
  | ValueError string
  | Exception string
  | ToolError string
  | ServiceError string

text \<open>Python's \<^verbatim>\<open>str(e)\<close>: the message; a \<^verbatim>\<open>KeyError\<close> prints its key quoted.\<close>

fun error_str :: "error \<Rightarrow> string" where
  "error_str (KeyError k) = [CHR 0x27] @ k @ [CHR 0x27]"
| "error_str (IndexError m) = m"
| "error_str (AttributeError m) = m"
| "error_str (ValueError m) = m"
| "error_str (Exception m) = m"
| "error_str (ToolError m) = m"
| "error_str (ServiceError m) = m"

subsection \<open>Messages\<close>

datatype role = User | Assistant | System | Tool

text \<open>
  Message content is text or a list of structured content blocks: a text block, a
  \<^verbatim>\<open>tool_use\<close> block (a tool call written into the content, by its identifier), or a
  block of another kind (an image, for example), by its type.
\<close>

datatype block = TextBlock string | ToolUseBlock string | OtherBlock string

datatype msg_content = Str string | Blocks "block list"

type_synonym args = "(string \<times> string) list"

datatype tool_call = ToolCall (tc_name: string) (tc_args: args) (tc_id: string)

text \<open>The message classes of \<^verbatim>\<open>langchain_core.messages\<close> that reach the graph state.\<close>

datatype message =
    HumanMessage msg_content
  | AIMessage msg_content "tool_call list"
  | ToolMessage msg_content string string
  | SystemMessage msg_content

fun content_of :: "message \<Rightarrow> msg_content" where
  "content_of (HumanMessage c) = c"
| "content_of (AIMessage c tcs) = c"
| "content_of (ToolMessage c n i) = c"
| "content_of (SystemMessage c) = c"

text \<open>
  Only an \<^verbatim>\<open>AIMessage\<close> has the attribute \<^verbatim>\<open>tool_calls\<close>; reading it from another
  message raises \<^verbatim>\<open>AttributeError\<close>.
\<close>

fun tool_calls_of :: "message \<Rightarrow> error + tool_call list" where
  "tool_calls_of (AIMessage c tcs) = Inr tcs"
| "tool_calls_of m = Inl (AttributeError ''tool_calls'')"

text \<open>The public schema \<^verbatim>\<open>app.schemas.Message\<close>: a role and a text.\<close>

record Message =
  role :: role
  content :: string

text \<open>\<^verbatim>\<open>app.schemas.GraphState\<close>.\<close>

record GraphState =
  messages :: "message list"
  long_term_memory :: string

datatype node = Chat | Tool_call | END

datatype command = Command (update: "message list") (goto: node)

subsection \<open>Collaborators\<close>

datatype environment = DEVELOPMENT | STAGING | PRODUCTION | TEST

type_synonym tool = "args \<Rightarrow> error + msg_content"

type_synonym search_response = "(string \<times> (string \<times> string) list list) list"

record env =
  ENVIRONMENT :: environment
  DEBUG :: bool
  tools_by_name :: "string \<rightharpoonup> tool"
  llm_call :: "Message list \<Rightarrow> error + message"
  load_system_prompt :: "string \<Rightarrow> string"
  prepare_messages :: "message list \<Rightarrow> string \<Rightarrow> Message list"
  process_llm_response :: "message \<Rightarrow> message"
  mongodb_saver :: "error option"
  memory_from_config :: "error option"
  memory_search :: "string \<Rightarrow> string \<Rightarrow> error + search_response"
  repr_block :: "block \<Rightarrow> string"

text \<open>
  Modelled from the spec: \<^verbatim>\<open>dump_messages\<close> (app.utils, not among the sources) turns
  each \<^verbatim>\<open>Message\<close> into its role/content dictionary; the record \<open>Message\<close> stands for
  both, so the dump keeps every message as it is, in order.
\<close>

definition dump_messages :: "Message list \<Rightarrow> Message list" where
  "dump_messages ms = ms"

text \<open>
  Modelled from the spec: the \<^verbatim>\<open>messages\<close> channel of \<^verbatim>\<open>GraphState\<close> (app.schemas, not
  among the sources) is append-only: a command's update is appended to the sequence.
\<close>

definition apply_command :: "GraphState \<Rightarrow> command \<Rightarrow> GraphState" where
  "apply_command state cmd = state\<lparr>messages := messages state @ update cmd\<rparr>"

subsection \<open>The chat step\<close>

text \<open>
  \<^verbatim>\<open>_chat\<close>, lines 172-235. The body of the \<^verbatim>\<open>try\<close> is \<open>chat_try\<close>; any exception in it
  is wrapped in a fresh \<^verbatim>\<open>Exception\<close>.
\<close>

definition chat_try :: "env \<Rightarrow> Message list \<Rightarrow> error + command" where
  "chat_try env msgs =
     (case llm_call env (dump_messages msgs) of
        Inl e \<Rightarrow> Inl e
      | Inr response \<Rightarrow>
          (let response_message = process_llm_response env response in
           case tool_calls_of response_message of
             Inl e \<Rightarrow> Inl e
           | Inr tcs \<Rightarrow>
               Inr (Command [response_message] (if tcs \<noteq> [] then Tool_call else END))))"

definition chat :: "env \<Rightarrow> GraphState \<Rightarrow> error + command" where
  "chat env state =
     (let SYSTEM_PROMPT = load_system_prompt env (long_term_memory state);
          msgs = prepare_messages env (messages state) SYSTEM_PROMPT
      in case chat_try env msgs of
           Inr cmd \<Rightarrow> Inr cmd
         | Inl e \<Rightarrow>
             Inl (Exception (''failed to get llm response after trying all models: '' @ error_str e)))"

subsection \<open>The tool-execution step\<close>

text \<open>
  \<^verbatim>\<open>_tool_call\<close>, lines 238-257. The loop body looks the tool up by name (a missing key
  raises \<^verbatim>\<open>KeyError\<close>), awaits its result (an exception of the tool propagates) and
  appends one \<^verbatim>\<open>ToolMessage\<close> to \<^verbatim>\<open>outputs\<close>.
\<close>

fun tool_outputs :: "env \<Rightarrow> tool_call list \<Rightarrow> message list \<Rightarrow> error + message list" where
  "tool_outputs env [] outputs = Inr outputs"
| "tool_outputs env (tc # rest) outputs =
     (case tools_by_name env (tc_name tc) of
        None \<Rightarrow> Inl (KeyError (tc_name tc))
      | Some t \<Rightarrow>
          (case t (tc_args tc) of
             Inl e \<Rightarrow> Inl e
           | Inr tool_result \<Rightarrow>
               tool_outputs env rest
                 (outputs @ [ToolMessage tool_result (tc_name tc) (tc_id tc)])))"

definition tool_call :: "env \<Rightarrow> GraphState \<Rightarrow> error + command" where
  "tool_call env state =
     (if messages state = [] then Inl (IndexError ''list index out of range'')
      else case tool_calls_of (last (messages state)) of
             Inl e \<Rightarrow> Inl e
           | Inr tcs \<Rightarrow>
               (case tool_outputs env tcs [] of
                  Inl e \<Rightarrow> Inl e
                | Inr outputs \<Rightarrow> Inr (Command outputs Chat)))"

subsection \<open>The response assembler\<close>

text \<open>Python's \<^verbatim>\<open>sep.join(parts)\<close>.\<close>

fun join :: "string \<Rightarrow> string list \<Rightarrow> string" where
  "join sep [] = []"
| "join sep [x] = x"
| "join sep (x # y # ys) = x @ sep @ join sep (y # ys)"

definition newline :: string where
  "newline = [CHR 0x0A]"

text \<open>
  \<^verbatim>\<open>convert_to_openai_messages\<close> (langchain_core, a library): every message becomes a
  dictionary with its OpenAI role and content, in order. Empty content becomes the empty
  text and text stays as it is. A list of text blocks is joined line by line. In any
  other list the \<^verbatim>\<open>tool_use\<close> blocks leave the content (they go to the key
  \<^verbatim>\<open>tool_calls\<close>); what remains is joined line by line when it is text only, and stays
  a list otherwise. The other keys of the dictionary (\<^verbatim>\<open>tool_calls\<close>, \<^verbatim>\<open>tool_call_id\<close>,
  \<^verbatim>\<open>name\<close>) are never read by this module.
\<close>

datatype oai_message = OpenAIMessage (oai_role: role) (oai_content: msg_content)

fun openai_role :: "message \<Rightarrow> role" where
  "openai_role (HumanMessage c) = User"
| "openai_role (AIMessage c tcs) = Assistant"
| "openai_role (ToolMessage c n i) = Tool"
| "openai_role (SystemMessage c) = System"

fun is_text :: "block \<Rightarrow> bool" where
  "is_text (TextBlock t) = True"
| "is_text b = False"

fun is_tool_use :: "block \<Rightarrow> bool" where
  "is_tool_use (ToolUseBlock i) = True"
| "is_tool_use b = False"

fun block_text :: "block \<Rightarrow> string" where
  "block_text (TextBlock t) = t"
| "block_text b = []"

fun openai_content :: "msg_content \<Rightarrow> msg_content" where
  "openai_content (Str s) = Str s"
| "openai_content (Blocks bs) =
     (if bs = [] then Str []
      else if list_all is_text bs then Str (join newline (map block_text bs))
      else (let kept = filter (\<lambda>b. \<not> is_tool_use b) bs
            in if list_all is_text kept then Str (join newline (map block_text kept))
               else Blocks kept))"

definition convert_to_openai_messages :: "message list \<Rightarrow> oai_message list" where
  "convert_to_openai_messages ms =
     map (\<lambda>m. OpenAIMessage (openai_role m) (openai_content (content_of m))) ms"

text \<open>Python's truth value of a content: a text or a list is true when it is not empty.\<close>

fun truthy :: "msg_content \<Rightarrow> bool" where
  "truthy (Str s) = (s \<noteq> [])"
| "truthy (Blocks bs) = (bs \<noteq> [])"

text \<open>
  Python's \<^verbatim>\<open>str(content)\<close>: a text is itself; a list prints as its items' \<^verbatim>\<open>repr\<close>
  between brackets (the \<^verbatim>\<open>repr\<close> of one block is the collaborator \<open>repr_block\<close>).
\<close>

fun py_str :: "env \<Rightarrow> msg_content \<Rightarrow> string" where
  "py_str env (Str s) = s"
| "py_str env (Blocks bs) = ''['' @ join '', '' (map (repr_block env) bs) @ '']''"

text \<open>\<^verbatim>\<open>__process_messages\<close>, lines 440-447.\<close>

definition process_messages :: "env \<Rightarrow> message list \<Rightarrow> Message list" where
  "process_messages env ms =
     [\<lparr>role = oai_role message, content = py_str env (oai_content message)\<rparr>.
        message \<leftarrow> convert_to_openai_messages ms,
        oai_role message \<in> set [Assistant, User] \<and> truthy (oai_content message)]"

subsection \<open>The agent's state and the world around it\<close>

datatype checkpointer = MongoDBSaver

datatype memory_client = AsyncMemory

datatype compiled_graph = CompiledStateGraph (checkpointer_of: "checkpointer option")

datatype log_level = INFO | WARNING | ERROR

datatype metadata = Metadata "string option" string environment bool

text \<open>
  The coroutine handed to \<^verbatim>\<open>asyncio.create_task\<close>:
  \<^verbatim>\<open>_update_long_term_memory(user_id, messages, metadata)\<close>, its arguments evaluated
  when the task is created.
\<close>

datatype task = UpdateLongTermMemory "string option" "oai_message list" metadata

text \<open>
  What the agent does to the outside, in the order it happens: a logger call, the log
  line of \<^verbatim>\<open>clear_chat_history\<close> with its two counts, a snapshot committed by the
  checkpointer, a token handed to the consumer of the stream, a background task created.
\<close>

datatype event =
    Log log_level string
  | LogCleared string nat nat
  | CheckpointPut string GraphState
  | Yielded msg_content
  | TaskCreated task

text \<open>
  \<open>graph\<close>, \<open>checkpointer\<close> and \<open>memory\<close> are the attributes \<^verbatim>\<open>self._graph\<close>,
  \<^verbatim>\<open>self._checkpointer\<close> and \<^verbatim>\<open>self.memory\<close>; \<open>checkpoints\<close> and \<open>checkpoint_writes\<close> are
  the two MongoDB collections, each record keyed by its \<^verbatim>\<open>thread_id\<close>.
\<close>

record world =
  graph :: "compiled_graph option"
  checkpointer :: "checkpointer option"
  memory :: "memory_client option"
  checkpoints :: "(string \<times> GraphState) list"
  checkpoint_writes :: "(string \<times> message list) list"
  trace :: "event list"

definition emit :: "event list \<Rightarrow> world \<Rightarrow> world" where
  "emit evs w = w\<lparr>trace := trace w @ evs\<rparr>"

definition log_event :: "log_level \<Rightarrow> string \<Rightarrow> world \<Rightarrow> world" where
  "log_event level name w = emit [Log level name] w"

subsection \<open>Checkpointer and graph construction\<close>

text \<open>
  \<^verbatim>\<open>_get_checkpointer\<close>, lines 97-132. \<open>mongodb_saver env\<close> is the outcome of the \<^verbatim>\<open>try\<close>
  block that builds the client and the saver: \<open>None\<close> when it succeeds, the exception
  otherwise.
\<close>

definition get_checkpointer :: "env \<Rightarrow> world \<Rightarrow> (error + checkpointer option) \<times> world" where
  "get_checkpointer env w =
     (if checkpointer w = None then
        (case mongodb_saver env of
           None \<Rightarrow>
             (Inr (Some MongoDBSaver),
              log_event INFO ''mongodb_checkpointer_created'' (w\<lparr>checkpointer := Some MongoDBSaver\<rparr>))
         | Some e \<Rightarrow>
             (let w1 = log_event ERROR ''mongodb_checkpointer_creation_failed'' w in
              if ENVIRONMENT env = PRODUCTION
              then (Inr None, log_event WARNING ''continuing_without_checkpointer'' w1)
              else (Inl e, w1)))
      else (Inr (checkpointer w), w))"

text \<open>\<^verbatim>\<open>create_graph\<close>, lines 259-296: the \<^verbatim>\<open>except\<close> handler, then the method.\<close>

definition create_graph_except ::
    "env \<Rightarrow> error \<Rightarrow> world \<Rightarrow> (error + compiled_graph option) \<times> world" where
  "create_graph_except env e w =
     (let w1 = log_event ERROR ''graph_creation_failed'' w in
      if ENVIRONMENT env = PRODUCTION
      then (Inr None, log_event WARNING ''continuing_without_graph'' w1)
      else (Inl e, w1))"

definition create_graph :: "env \<Rightarrow> world \<Rightarrow> (error + compiled_graph option) \<times> world" where
  "create_graph env w =
     (if graph w = None then
        (case get_checkpointer env w of
           (Inl e, w1) \<Rightarrow> create_graph_except env e w1
         | (Inr cp, w1) \<Rightarrow>
             if cp = None \<and> ENVIRONMENT env \<noteq> PRODUCTION
             then create_graph_except env
                    (Exception ''MongoDB checkpointer initialization failed'') w1
             else (Inr (Some (CompiledStateGraph cp)),
                   log_event INFO ''graph_created'' (w1\<lparr>graph := Some (CompiledStateGraph cp)\<rparr>)))
      else (Inr (graph w), w))"

text \<open>
  The statement \<^verbatim>\<open>if self._graph is None: self._graph = await self.create_graph()\<close>
  that opens \<^verbatim>\<open>get_response\<close>, \<^verbatim>\<open>get_stream_response\<close> and \<^verbatim>\<open>get_chat_history\<close>.
\<close>

definition ensure_graph :: "env \<Rightarrow> world \<Rightarrow> (error + unit) \<times> world" where
  "ensure_graph env w =
     (if graph w = None then
        (case create_graph env w of
           (Inl e, w1) \<Rightarrow> (Inl e, w1)
         | (Inr g, w1) \<Rightarrow> (Inr (), w1\<lparr>graph := g\<rparr>))
      else (Inr (), w))"

subsection \<open>Long-term memory retrieval\<close>

text \<open>\<^verbatim>\<open>_long_term_memory\<close>, lines 74-95: the client is built once and kept.\<close>

definition long_term_memory_client :: "env \<Rightarrow> world \<Rightarrow> (error + memory_client) \<times> world" where
  "long_term_memory_client env w =
     (case memory w of
        Some m \<Rightarrow> (Inr m, w)
      | None \<Rightarrow>
          (case memory_from_config env of
             Some e \<Rightarrow> (Inl e, w)
           | None \<Rightarrow> (Inr AsyncMemory, w\<lparr>memory := Some AsyncMemory\<rparr>)))"

text \<open>Python's \<^verbatim>\<open>str(user_id)\<close> for an optional identifier.\<close>

fun str_opt :: "string option \<Rightarrow> string" where
  "str_opt None = ''None''"
| "str_opt (Some u) = u"

text \<open>
  The list comprehension of line 148: one bullet per result; a result without the key
  \<^verbatim>\<open>memory\<close>, or a response without the key \<^verbatim>\<open>results\<close>, raises \<^verbatim>\<open>KeyError\<close>.
\<close>

fun memory_lines :: "(string \<times> string) list list \<Rightarrow> error + string list" where
  "memory_lines [] = Inr []"
| "memory_lines (result # rest) =
     (case map_of result ''memory'' of
        None \<Rightarrow> Inl (KeyError ''memory'')
      | Some m \<Rightarrow>
          (case memory_lines rest of
             Inl e \<Rightarrow> Inl e
           | Inr ls \<Rightarrow> Inr ((''* '' @ m) # ls)))"

definition render_memory :: "search_response \<Rightarrow> error + string" where
  "render_memory results =
     (case map_of results ''results'' of
        None \<Rightarrow> Inl (KeyError ''results'')
      | Some rs \<Rightarrow>
          (case memory_lines rs of
             Inl e \<Rightarrow> Inl e
           | Inr ls \<Rightarrow> Inr (join newline ls)))"

text \<open>
  \<^verbatim>\<open>_get_relevant_memory\<close>, lines 134-151: \<open>relevant_memory_try\<close> is the body of the
  \<^verbatim>\<open>try\<close>; the handler logs and returns the empty string.
\<close>

definition relevant_memory_try ::
    "env \<Rightarrow> string option \<Rightarrow> string \<Rightarrow> world \<Rightarrow> (error + string) \<times> world" where
  "relevant_memory_try env user_id query w =
     (case long_term_memory_client env w of
        (Inl e, w1) \<Rightarrow> (Inl e, w1)
      | (Inr m, w1) \<Rightarrow>
          (case memory_search env (str_opt user_id) query of
             Inl e \<Rightarrow> (Inl e, w1)
           | Inr results \<Rightarrow> (render_memory results, w1)))"

definition get_relevant_memory ::
    "env \<Rightarrow> string option \<Rightarrow> string \<Rightarrow> world \<Rightarrow> string \<times> world" where
  "get_relevant_memory env user_id query w =
     (case relevant_memory_try env user_id query w of
        (Inr text, w1) \<Rightarrow> (text, w1)
      | (Inl e, w1) \<Rightarrow> ([], log_event ERROR ''failed_to_get_relevant_memory'' w1))"

subsection \<open>The graph runtime\<close>

text \<open>
  The compiled graph is run by LangGraph, a library. What this module relies on is
  modelled here: the graph of \<^verbatim>\<open>create_graph\<close> (entry point \<^verbatim>\<open>chat\<close>, every node routing
  by the \<^verbatim>\<open>goto\<close> of its command), the input merged into the latest snapshot of the
  thread, a snapshot committed after the input and after every node when the graph has
  a checkpointer, and, in the stream mode \<^verbatim>\<open>messages\<close>, the messages a node produces
  handed to the consumer as they appear, one item per message (the split of a reply into
  token chunks is not modelled).
\<close>

text \<open>The latest snapshot of a thread, \<open>None\<close> when it has none.\<close>

definition latest :: "world \<Rightarrow> string \<Rightarrow> GraphState option" where
  "latest w thread_id =
     (case filter (\<lambda>r. fst r = thread_id) (checkpoints w) of
        [] \<Rightarrow> None
      | r # rs \<Rightarrow> Some (snd (last (r # rs))))"

definition put_writes :: "compiled_graph \<Rightarrow> string \<Rightarrow> message list \<Rightarrow> world \<Rightarrow> world" where
  "put_writes g thread_id ms w =
     (case checkpointer_of g of
        None \<Rightarrow> w
      | Some cp \<Rightarrow> w\<lparr>checkpoint_writes := checkpoint_writes w @ [(thread_id, ms)]\<rparr>)"

definition put_checkpoint :: "compiled_graph \<Rightarrow> string \<Rightarrow> GraphState \<Rightarrow> world \<Rightarrow> world" where
  "put_checkpoint g thread_id state w =
     (case checkpointer_of g of
        None \<Rightarrow> w
      | Some cp \<Rightarrow>
          emit [CheckpointPut thread_id state]
            (w\<lparr>checkpoints := checkpoints w @ [(thread_id, state)]\<rparr>))"

text \<open>
  The dictionaries of the input become messages by their role; a \<^verbatim>\<open>tool\<close> dictionary
  has no call identifier and is refused.
\<close>

fun coerce_message :: "Message \<Rightarrow> error + message" where
  "coerce_message m =
     (case role m of
        User \<Rightarrow> Inr (HumanMessage (Str (content m)))
      | Assistant \<Rightarrow> Inr (AIMessage (Str (content m)) [])
      | System \<Rightarrow> Inr (SystemMessage (Str (content m)))
      | Tool \<Rightarrow> Inl (ValueError ''tool_call_id''))"

fun coerce_messages :: "Message list \<Rightarrow> error + message list" where
  "coerce_messages [] = Inr []"
| "coerce_messages (m # ms) =
     (case coerce_message m of
        Inl e \<Rightarrow> Inl e
      | Inr x \<Rightarrow>
          (case coerce_messages ms of
             Inl e \<Rightarrow> Inl e
           | Inr xs \<Rightarrow> Inr (x # xs)))"

definition run_node :: "env \<Rightarrow> node \<Rightarrow> GraphState \<Rightarrow> error + command" where
  "run_node env n state =
     (case n of
        Chat \<Rightarrow> chat env state
      | Tool_call \<Rightarrow> tool_call env state
      | END \<Rightarrow> Inr (Command [] END))"

text \<open>
  The loop of the runtime: the commands of the executed nodes in order, and the state
  or the exception it ends with. \<open>fuel\<close> bounds the number of node executions; \<open>None\<close>
  means that the turn did not finish within the bound.
\<close>

fun run_graph ::
    "env \<Rightarrow> nat \<Rightarrow> node \<Rightarrow> GraphState \<Rightarrow> ((error + GraphState) \<times> command list) option" where
  "run_graph env fuel END state = Some (Inr state, [])"
| "run_graph env 0 n state = None"
| "run_graph env (Suc fuel) n state =
     (case run_node env n state of
        Inl e \<Rightarrow> Some (Inl e, [])
      | Inr cmd \<Rightarrow>
          (case run_graph env fuel (goto cmd) (apply_command state cmd) of
             None \<Rightarrow> None
           | Some (r, cmds) \<Rightarrow> Some (r, cmd # cmds)))"

text \<open>
  What the runtime does to the outside for every executed node, in order: when
  \<open>streaming\<close>, the messages of the node are handed to the consumer; then its writes
  and the snapshot of the new state are committed.
\<close>

fun record_steps ::
    "compiled_graph \<Rightarrow> string \<Rightarrow> bool \<Rightarrow> GraphState \<Rightarrow> command list \<Rightarrow> world \<Rightarrow> world" where
  "record_steps g thread_id streaming state [] w = w"
| "record_steps g thread_id streaming state (cmd # cmds) w =
     (let state' = apply_command state cmd;
          w1 = (if streaming then emit (map (\<lambda>m. Yielded (content_of m)) (update cmd)) w
                else w);
          w2 = put_checkpoint g thread_id state' (put_writes g thread_id (update cmd) w1)
      in record_steps g thread_id streaming state' cmds w2)"

text \<open>The messages the thread already has: those of its latest snapshot.\<close>

definition prior_messages :: "compiled_graph \<Rightarrow> string \<Rightarrow> world \<Rightarrow> message list" where
  "prior_messages g thread_id w =
     (case checkpointer_of g of
        None \<Rightarrow> []
      | Some cp \<Rightarrow> (case latest w thread_id of None \<Rightarrow> [] | Some p \<Rightarrow> messages p))"

definition invoke_graph ::
    "env \<Rightarrow> compiled_graph \<Rightarrow> string \<Rightarrow> bool \<Rightarrow> nat \<Rightarrow> Message list \<Rightarrow> string \<Rightarrow> world
      \<Rightarrow> ((error + GraphState) \<times> message list \<times> world) option" where
  "invoke_graph env g thread_id streaming fuel input_messages memory_text w =
     (case coerce_messages input_messages of
        Inl e \<Rightarrow> Some (Inl e, [], w)
      | Inr new \<Rightarrow>
          (let state = \<lparr>messages = prior_messages g thread_id w @ new,
                        long_term_memory = memory_text\<rparr>
           in case run_graph env fuel Chat state of
                None \<Rightarrow> None
              | Some (r, cmds) \<Rightarrow>
                  Some (r, concat (map update cmds),
                        record_steps g thread_id streaming state cmds
                          (put_checkpoint g thread_id state w))))"

text \<open>\<^verbatim>\<open>graph.ainvoke\<close>: the final state.\<close>

definition ainvoke ::
    "env \<Rightarrow> compiled_graph \<Rightarrow> string \<Rightarrow> nat \<Rightarrow> Message list \<Rightarrow> string \<Rightarrow> world
      \<Rightarrow> ((error + GraphState) \<times> world) option" where
  "ainvoke env g thread_id fuel input_messages memory_text w =
     map_option (\<lambda>(r, out, w'). (r, w'))
       (invoke_graph env g thread_id False fuel input_messages memory_text w)"

text \<open>\<^verbatim>\<open>graph.astream\<close> in the mode \<^verbatim>\<open>messages\<close>: the items produced, and how it ended.\<close>

definition astream ::
    "env \<Rightarrow> compiled_graph \<Rightarrow> string \<Rightarrow> nat \<Rightarrow> Message list \<Rightarrow> string \<Rightarrow> world
      \<Rightarrow> ((error + GraphState) \<times> message list \<times> world) option" where
  "astream env g thread_id fuel input_messages memory_text w =
     invoke_graph env g thread_id True fuel input_messages memory_text w"

text \<open>\<^verbatim>\<open>graph.get_state\<close>: it needs a checkpointer; a thread without snapshot has no values.\<close>

definition get_state :: "compiled_graph \<Rightarrow> string \<Rightarrow> world \<Rightarrow> error + GraphState option" where
  "get_state g thread_id w =
     (case checkpointer_of g of
        None \<Rightarrow> Inl (ValueError ''No checkpointer set'')
      | Some cp \<Rightarrow> Inr (latest w thread_id))"

subsection \<open>The public operations\<close>

definition schedule_memory_update ::
    "env \<Rightarrow> string option \<Rightarrow> string \<Rightarrow> message list \<Rightarrow> world \<Rightarrow> world" where
  "schedule_memory_update env user_id session_id ms w =
     emit [TaskCreated (UpdateLongTermMemory user_id (convert_to_openai_messages ms)
             (Metadata user_id session_id (ENVIRONMENT env) (DEBUG env)))] w"

text \<open>
  \<^verbatim>\<open>get_response\<close>, lines 298-355. \<^verbatim>\<open>messages[-1]\<close> of an empty list raises before the
  \<^verbatim>\<open>try\<close>; a graph that is \<^verbatim>\<open>None\<close> has no \<^verbatim>\<open>ainvoke\<close>, inside it.
\<close>

definition get_response ::
    "env \<Rightarrow> nat \<Rightarrow> Message list \<Rightarrow> string \<Rightarrow> string option \<Rightarrow> world
      \<Rightarrow> ((error + Message list) \<times> world) option" where
  "get_response env fuel msgs session_id user_id w =
     (case ensure_graph env w of
        (Inl e, w1) \<Rightarrow> Some (Inl e, w1)
      | (Inr u, w1) \<Rightarrow>
          if msgs = [] then Some (Inl (IndexError ''list index out of range''), w1)
          else
            (case get_relevant_memory env user_id (content (last msgs)) w1 of
               (found, w2) \<Rightarrow>
                 (let relevant_memory =
                        (if found \<noteq> [] then found else ''No relevant memory found.'')
                  in case (case graph w2 of
                             None \<Rightarrow> Some (Inl (AttributeError ''ainvoke''), w2)
                           | Some g \<Rightarrow>
                               ainvoke env g session_id fuel (dump_messages msgs)
                                 relevant_memory w2) of
                       None \<Rightarrow> None
                     | Some (Inl e, w3) \<Rightarrow>
                         Some (Inl e, log_event ERROR (''Error getting response: '' @ error_str e) w3)
                     | Some (Inr response, w3) \<Rightarrow>
                         Some (Inr (process_messages env (messages response)),
                               schedule_memory_update env user_id session_id
                                 (messages response) w3))))"

text \<open>
  \<^verbatim>\<open>get_stream_response\<close>, lines 357-421: the tokens handed to the caller, the exception
  that ended the stream if one did, and the world afterwards. Reading the content of
  an item does not raise, so the handler around the \<^verbatim>\<open>yield\<close> never runs.
\<close>

definition stream_except ::
    "message list \<Rightarrow> error \<Rightarrow> world \<Rightarrow> ((msg_content list \<times> error option) \<times> world) option" where
  "stream_except out e w =
     Some ((map content_of out, Some e), log_event ERROR ''Error in stream processing'' w)"

definition get_stream_response ::
    "env \<Rightarrow> nat \<Rightarrow> Message list \<Rightarrow> string \<Rightarrow> string option \<Rightarrow> world
      \<Rightarrow> ((msg_content list \<times> error option) \<times> world) option" where
  "get_stream_response env fuel msgs session_id user_id w =
     (case ensure_graph env w of
        (Inl e, w1) \<Rightarrow> Some (([], Some e), w1)
      | (Inr u, w1) \<Rightarrow>
          if msgs = [] then Some (([], Some (IndexError ''list index out of range'')), w1)
          else
            (case get_relevant_memory env user_id (content (last msgs)) w1 of
               (found, w2) \<Rightarrow>
                 (let relevant_memory =
                        (if found \<noteq> [] then found else ''No relevant memory found.'')
                  in case graph w2 of
                       None \<Rightarrow> stream_except [] (AttributeError ''astream'') w2
                     | Some g \<Rightarrow>
                         (case astream env g session_id fuel (dump_messages msgs)
                                 relevant_memory w2 of
                            None \<Rightarrow> None
                          | Some (Inl e, out, w3) \<Rightarrow> stream_except out e w3
                          | Some (Inr final, out, w3) \<Rightarrow>
                              (case get_state g session_id w3 of
                                 Inl e \<Rightarrow> stream_except out e w3
                               | Inr None \<Rightarrow> Some ((map content_of out, None), w3)
                               | Inr (Some values) \<Rightarrow>
                                   Some ((map content_of out, None),
                                         schedule_memory_update env user_id session_id
                                           (messages values) w3))))))"

text \<open>\<^verbatim>\<open>get_chat_history\<close>, lines 423-438.\<close>

definition get_chat_history :: "env \<Rightarrow> string \<Rightarrow> world \<Rightarrow> (error + Message list) \<times> world" where
  "get_chat_history env session_id w =
     (case ensure_graph env w of
        (Inl e, w1) \<Rightarrow> (Inl e, w1)
      | (Inr u, w1) \<Rightarrow>
          (case graph w1 of
             None \<Rightarrow> (Inl (AttributeError ''get_state''), w1)
           | Some g \<Rightarrow>
               (case get_state g session_id w1 of
                  Inl e \<Rightarrow> (Inl e, w1)
                | Inr None \<Rightarrow> (Inr [], w1)
                | Inr (Some values) \<Rightarrow> (Inr (process_messages env (messages values)), w1))))"

text \<open>
  \<^verbatim>\<open>clear_chat_history\<close>, lines 449-486. \<^verbatim>\<open>delete_many\<close> removes the records of the
  thread from a collection and tells how many they were.
\<close>

definition delete_many :: "string \<Rightarrow> (string \<times> 'a) list \<Rightarrow> nat \<times> (string \<times> 'a) list" where
  "delete_many thread_id coll =
     (length (filter (\<lambda>r. fst r = thread_id) coll), filter (\<lambda>r. fst r \<noteq> thread_id) coll)"

definition clear_except :: "error \<Rightarrow> world \<Rightarrow> (error + unit) \<times> world" where
  "clear_except e w = (Inl e, log_event ERROR ''failed_to_clear_chat_history'' w)"

definition clear_chat_history :: "env \<Rightarrow> string \<Rightarrow> world \<Rightarrow> (error + unit) \<times> world" where
  "clear_chat_history env session_id w =
     (case get_checkpointer env w of
        (Inl e, w1) \<Rightarrow> clear_except e w1
      | (Inr None, w1) \<Rightarrow> clear_except (Exception ''MongoDB checkpointer not available'') w1
      | (Inr (Some cp), w1) \<Rightarrow>
          (let checkpoint_result = delete_many session_id (checkpoints w1);
               writes_result = delete_many session_id (checkpoint_writes w1)
           in (Inr (),
               emit [LogCleared session_id (fst checkpoint_result) (fst writes_result)]
                 (w1\<lparr>checkpoints := snd checkpoint_result,
                     checkpoint_writes := snd writes_result\<rparr>))))"

subsection \<open>Reading a trace, and a caller that submits turns\<close>

text \<open>The tokens handed to the consumer and the background tasks created, in order.\<close>

fun tokens_of :: "event list \<Rightarrow> msg_content list" where
  "tokens_of [] = []"
| "tokens_of (Yielded c # evs) = c # tokens_of evs"
| "tokens_of (e # evs) = tokens_of evs"

fun tasks_of :: "event list \<Rightarrow> task list" where
  "tasks_of [] = []"
| "tasks_of (TaskCreated t # evs) = t # tasks_of evs"
| "tasks_of (e # evs) = tasks_of evs"

fun is_log :: "event \<Rightarrow> bool" where
  "is_log (Log level name) = True"
| "is_log e = False"

text \<open>
  A caller that submits the turns of one session to \<^verbatim>\<open>get_response\<close> one after the
  other and collects the replies; \<open>None\<close> when a turn raises or does not finish.
\<close>

fun run_turns ::
    "env \<Rightarrow> nat \<Rightarrow> string \<Rightarrow> string option \<Rightarrow> Message list list \<Rightarrow> world
      \<Rightarrow> (Message list list \<times> world) option" where
  "run_turns env fuel session_id user_id [] w = Some ([], w)"
| "run_turns env fuel session_id user_id (msgs # rest) w =
     (case get_response env fuel msgs session_id user_id w of
        Some (Inr reply, w1) \<Rightarrow>
          (case run_turns env fuel session_id user_id rest w1 of
             Some (replies, w2) \<Rightarrow> Some (reply # replies, w2)
           | None \<Rightarrow> None)
      | Some (Inl e, w1) \<Rightarrow> None
      | None \<Rightarrow> None)"

text \<open>The value of \<^verbatim>\<open>relevant_memory\<close> in \<^verbatim>\<open>get_response\<close>, lines 329-331.\<close>

definition relevant_memory_text :: "env \<Rightarrow> string option \<Rightarrow> world \<Rightarrow> Message list \<Rightarrow> string" where
  "relevant_memory_text env user_id w msgs =
     (let found = fst (get_relevant_memory env user_id (content (last msgs)) w)
      in if found \<noteq> [] then found else ''No relevant memory found.'')"

text \<open>
  The graph runs of the turns of one session, one after the other: every turn starts
  from the messages the session holds, to which the submitted ones are added, and gives
  the pair of the submitted messages (as the graph holds them) and the messages its
  nodes produced. \<open>None\<close> when an input is refused or a run raises or does not finish.
\<close>

fun turn_outputs ::
    "env \<Rightarrow> nat \<Rightarrow> (Message list \<Rightarrow> string) \<Rightarrow> message list \<Rightarrow> Message list list
      \<Rightarrow> (message list \<times> message list) list option" where
  "turn_outputs env fuel memory_text before [] = Some []"
| "turn_outputs env fuel memory_text before (msgs # rest) =
     (case coerce_messages msgs of
        Inl e \<Rightarrow> None
      | Inr new \<Rightarrow>
          (case run_graph env fuel Chat
                  \<lparr>messages = before @ new, long_term_memory = memory_text msgs\<rparr> of
             None \<Rightarrow> None
           | Some (Inl e, cmds) \<Rightarrow> None
           | Some (Inr final, cmds) \<Rightarrow>
               (case turn_outputs env fuel memory_text (messages final) rest of
                  None \<Rightarrow> None
                | Some outs \<Rightarrow> Some ((new, concat (map update cmds)) # outs))))"

subsection \<open>A scenario\<close>

text \<open>
  Session \<^verbatim>\<open>S1\<close>: the user asks for the weather, the model requests the tool
  \<^verbatim>\<open>get_weather\<close>, the tool answers, and the model's second reply has no tool call.
\<close>

definition weather_llm :: "Message list \<Rightarrow> error + message" where
  "weather_llm prompt =
     (if list_ex (\<lambda>m. role m = Tool) prompt
      then Inr (AIMessage (Str ''It is 18C and cloudy in Paris.'') [])
      else Inr (AIMessage (Str []) [ToolCall ''get_weather'' [(''city'', ''Paris'')] ''call_1'']))"

definition weather_prepare :: "message list \<Rightarrow> string \<Rightarrow> Message list" where
  "weather_prepare ms system_prompt =
     \<lparr>role = System, content = system_prompt\<rparr> #
     map (\<lambda>m. \<lparr>role = openai_role m,
               content = (case content_of m of Str s \<Rightarrow> s | Blocks bs \<Rightarrow> [])\<rparr>) ms"

definition weather_env :: env where
  "weather_env =
     \<lparr>ENVIRONMENT = DEVELOPMENT, DEBUG = False,
      tools_by_name = [''get_weather'' \<mapsto> (\<lambda>a. Inr (Str ''18C, cloudy''))],
      llm_call = weather_llm,
      load_system_prompt = (\<lambda>m. ''Memory: '' @ m),
      prepare_messages = weather_prepare,
      process_llm_response = (\<lambda>m. m),
      mongodb_saver = None,
      memory_from_config = None,
      memory_search = (\<lambda>u q. Inr [(''results'', [])]),
      repr_block = (\<lambda>b. ''{}'')\<rparr>"

text \<open>The agent as \<^verbatim>\<open>__init__\<close> leaves it, over an empty database.\<close>

definition initial_world :: world where
  "initial_world =
     \<lparr>graph = None, checkpointer = None, memory = None,
      checkpoints = [], checkpoint_writes = [], trace = []\<rparr>"

definition weather_question :: "Message list" where
  "weather_question = [\<lparr>role = User, content = ''What is the weather?''\<rparr>]"

text \<open>A registry whose only tool rejects its arguments, and a step that calls it first.\<close>

definition failing_tool_env :: env where
  "failing_tool_env =
     weather_env\<lparr>tools_by_name := [''A'' \<mapsto> (\<lambda>a. Inl (ToolError ''invalid arguments''))]\<rparr>"

definition two_calls_state :: GraphState where
  "two_calls_state =
     \<lparr>messages = [HumanMessage (Str ''go''),
                  AIMessage (Str []) [ToolCall ''A'' [] ''call_1'', ToolCall ''B'' [] ''call_2'']],
      long_term_memory = []\<rparr>"

text \<open>Three tools and an assistant message that calls them in the order A, B, C.\<close>

definition abc_env :: env where
  "abc_env =
     weather_env\<lparr>tools_by_name :=
       [''A'' \<mapsto> (\<lambda>a. Inr (Str ''a'')), ''B'' \<mapsto> (\<lambda>a. Inr (Str ''b'')), ''C'' \<mapsto> (\<lambda>a. Inr (Str ''c''))]\<rparr>"

definition abc_state :: GraphState where
  "abc_state =
     \<lparr>messages = [HumanMessage (Str ''go''),
                  AIMessage (Str []) [ToolCall ''A'' [] ''1'', ToolCall ''B'' [] ''2'', ToolCall ''C'' [] ''3'']],
      long_term_memory = []\<rparr>"

text \<open>The scenario's commands and final state, in the order the turn produces them.\<close>

definition weather_commands :: "command list" where
  "weather_commands =
     [Command [AIMessage (Str []) [ToolCall ''get_weather'' [(''city'', ''Paris'')] ''call_1'']] Tool_call,
      Command [ToolMessage (Str ''18C, cloudy'') ''get_weather'' ''call_1''] Chat,
      Command [AIMessage (Str ''It is 18C and cloudy in Paris.'') []] END]"

definition weather_final :: GraphState where
  "weather_final =
     \<lparr>messages = [HumanMessage (Str ''What is the weather?''),
                  AIMessage (Str []) [ToolCall ''get_weather'' [(''city'', ''Paris'')] ''call_1''],
                  ToolMessage (Str ''18C, cloudy'') ''get_weather'' ''call_1'',
                  AIMessage (Str ''It is 18C and cloudy in Paris.'') []],
      long_term_memory = ''No relevant memory found.''\<rparr>"

text \<open>The same scenario with a model that says a word before it requests the tool.\<close>

definition chatty_llm :: "Message list \<Rightarrow> error + message" where
  "chatty_llm prompt =
     (if list_ex (\<lambda>m. role m = Tool) prompt
      then Inr (AIMessage (Str ''It is 18C and cloudy in Paris.'') [])
      else Inr (AIMessage (Str ''Let me check.'')
                  [ToolCall ''get_weather'' [(''city'', ''Paris'')] ''call_1'']))"

definition chatty_env :: env where
  "chatty_env = weather_env\<lparr>llm_call := chatty_llm\<rparr>"

text \<open>The same collaborators with a memory service that is down.\<close>

definition memory_down_env :: env where
  "memory_down_env = weather_env\<lparr>memory_search := (\<lambda>u q. Inl (ServiceError ''unavailable''))\<rparr>"

text \<open>The same collaborators with a memory service whose results lack the key.\<close>

definition malformed_memory_env :: env where
  "malformed_memory_env =
     weather_env\<lparr>memory_search := (\<lambda>u q. Inr [(''results'', [[(''text'', ''likes rain'')]])])\<rparr>"

text \<open>The same collaborators in production, with a database that cannot be reached.\<close>

definition degraded_env :: env where
  "degraded_env =
     weather_env\<lparr>ENVIRONMENT := PRODUCTION, mongodb_saver := Some (ServiceError ''unreachable'')\<rparr>"

text \<open>A database that holds snapshots of two sessions, and an agent connected to it.\<close>

definition stored_world :: world where
  "stored_world =
     \<lparr>graph = None, checkpointer = Some MongoDBSaver, memory = None,
      checkpoints =
        [(''S1'', \<lparr>messages = [HumanMessage (Str ''hello'')], long_term_memory = []\<rparr>),
         (''S2'', \<lparr>messages = [HumanMessage (Str ''other'')], long_term_memory = []\<rparr>),
         (''S1'', \<lparr>messages = [HumanMessage (Str ''hello''), AIMessage (Str ''hi'') []],
                  long_term_memory = []\<rparr>)],
      checkpoint_writes = [(''S1'', [AIMessage (Str ''hi'') []])],
      trace = []\<rparr>"

section \<open>Properties\<close>

subsection \<open>The chat step\<close>

text \<open>
  C1. When the inference client returns a response, the chat step holds it as
  \<open>process_llm_response\<close> leaves it; for that assistant message the step succeeds, its
  command appends exactly this message to the conversation state, and it goes to
  \<^verbatim>\<open>tool_call\<close> when the message carries tool calls and to the end otherwise.
\<close>

theorem chat_routes_on_tool_calls:
  assumes "llm_call env (dump_messages (prepare_messages env (messages state)
             (load_system_prompt env (long_term_memory state)))) = Inr response"
      and "process_llm_response env response = AIMessage c tcs"
  shows "\<exists>cmd. chat env state = Inr cmd
           \<and> update cmd = [AIMessage c tcs]
           \<and> messages (apply_command state cmd) = messages state @ [AIMessage c tcs]
           \<and> (tcs \<noteq> [] \<longrightarrow> goto cmd = Tool_call)
           \<and> (tcs = [] \<longrightarrow> goto cmd = END)"
  using assms by (simp add: chat_def chat_try_def apply_command_def Let_def)

theorem chat_routes_on_tool_calls_witness:
  "chat weather_env \<lparr>messages = [HumanMessage (Str ''What is the weather?'')],
                      long_term_memory = ''none''\<rparr>
     = Inr (Command [AIMessage (Str []) [ToolCall ''get_weather'' [(''city'', ''Paris'')] ''call_1'']]
              Tool_call)
   \<and> chat weather_env
        \<lparr>messages = [HumanMessage (Str ''What is the weather?''),
                     AIMessage (Str []) [ToolCall ''get_weather'' [(''city'', ''Paris'')] ''call_1''],
                     ToolMessage (Str ''18C, cloudy'') ''get_weather'' ''call_1''],
         long_term_memory = ''none''\<rparr>
     = Inr (Command [AIMessage (Str ''It is 18C and cloudy in Paris.'') []] END)"
proof -
  let ?s1 = "\<lparr>messages = [HumanMessage (Str ''What is the weather?'')],
              long_term_memory = ''none''\<rparr>"
  let ?tc = "ToolCall ''get_weather'' [(''city'', ''Paris'')] ''call_1''"
  let ?s2 = "\<lparr>messages = [HumanMessage (Str ''What is the weather?''), AIMessage (Str []) [?tc],
                          ToolMessage (Str ''18C, cloudy'') ''get_weather'' ''call_1''],
              long_term_memory = ''none''\<rparr>"
  have a: "llm_call weather_env (dump_messages (prepare_messages weather_env (messages ?s1)
             (load_system_prompt weather_env (long_term_memory ?s1)))) = Inr (AIMessage (Str []) [?tc])"
    by (simp add: weather_env_def weather_llm_def weather_prepare_def dump_messages_def)
  have b: "llm_call weather_env (dump_messages (prepare_messages weather_env (messages ?s2)
             (load_system_prompt weather_env (long_term_memory ?s2))))
           = Inr (AIMessage (Str ''It is 18C and cloudy in Paris.'') [])"
    by (simp add: weather_env_def weather_llm_def weather_prepare_def dump_messages_def)
  have p: "\<And>m. process_llm_response weather_env m = m"
    by (simp add: weather_env_def)
  from chat_routes_on_tool_calls[OF a p] chat_routes_on_tool_calls[OF b p]
  show ?thesis by (cases rule: command.exhaust) (auto simp: command.expand)
qed

subsection \<open>The tool-execution step\<close>

lemma tool_outputs_Inr:
  "tool_outputs env tcs acc = Inr outs \<Longrightarrow>
   \<exists>new. outs = acc @ new \<and>
     list_all2 (\<lambda>tc m. \<exists>t r. tools_by_name env (tc_name tc) = Some t \<and> t (tc_args tc) = Inr r
                          \<and> m = ToolMessage r (tc_name tc) (tc_id tc)) tcs new"
proof (induction tcs arbitrary: acc outs)
  case Nil
  then show ?case by simp
next
  case (Cons tc rest)
  from Cons.prems obtain t r where
    t: "tools_by_name env (tc_name tc) = Some t" and r: "t (tc_args tc) = Inr r"
    and rec: "tool_outputs env rest (acc @ [ToolMessage r (tc_name tc) (tc_id tc)]) = Inr outs"
    by (auto split: option.splits sum.splits)
  from Cons.IH[OF rec] obtain new where
    new: "outs = (acc @ [ToolMessage r (tc_name tc) (tc_id tc)]) @ new"
      "list_all2 (\<lambda>tc m. \<exists>t r. tools_by_name env (tc_name tc) = Some t \<and> t (tc_args tc) = Inr r
                          \<and> m = ToolMessage r (tc_name tc) (tc_id tc)) rest new"
    by blast
  show ?case
    using t r new by (intro exI[of _ "ToolMessage r (tc_name tc) (tc_id tc) # new"]) simp
qed

lemma tool_outputs_total:
  "\<forall>tc\<in>set tcs. \<exists>t r. tools_by_name env (tc_name tc) = Some t \<and> t (tc_args tc) = Inr r
    \<Longrightarrow> \<exists>outs. tool_outputs env tcs acc = Inr outs"
  by (induction tcs arbitrary: acc) auto

lemma tool_outputs_absent:
  "tools_by_name env (tc_name tc) = None \<Longrightarrow>
   \<exists>e. tool_outputs env (pre @ tc # post) acc = Inl e \<and>
     (e = KeyError (tc_name tc)
      \<or> (\<exists>p\<in>set pre. tools_by_name env (tc_name p) = None \<and> e = KeyError (tc_name p))
      \<or> (\<exists>p\<in>set pre. \<exists>t. tools_by_name env (tc_name p) = Some t \<and> t (tc_args p) = Inl e))"
proof (induction pre arbitrary: acc)
  case Nil
  then show ?case by simp
next
  case (Cons p pre)
  show ?case
  proof (cases "tools_by_name env (tc_name p)")
    case None
    then show ?thesis by simp
  next
    case (Some t)
    show ?thesis
    proof (cases "t (tc_args p)")
      case (Inl e)
      with Some show ?thesis by auto
    next
      case (Inr r)
      from Cons.IH[OF Cons.prems, of "acc @ [ToolMessage r (tc_name p) (tc_id p)]"]
      obtain e where "tool_outputs env (pre @ tc # post) (acc @ [ToolMessage r (tc_name p) (tc_id p)]) = Inl e"
        and "e = KeyError (tc_name tc)
      \<or> (\<exists>p\<in>set pre. tools_by_name env (tc_name p) = None \<and> e = KeyError (tc_name p))
      \<or> (\<exists>p\<in>set pre. \<exists>t. tools_by_name env (tc_name p) = Some t \<and> t (tc_args p) = Inl e)"
        by blast
      with Some Inr show ?thesis by auto
    qed
  qed
qed

lemma tool_outputs_first_absent:
  "tools_by_name env (tc_name tc) = None \<Longrightarrow>
   \<forall>p\<in>set pre. \<exists>t r. tools_by_name env (tc_name p) = Some t \<and> t (tc_args p) = Inr r \<Longrightarrow>
   tool_outputs env (pre @ tc # post) acc = Inl (KeyError (tc_name tc))"
  by (induction pre arbitrary: acc) auto

text \<open>
  C2. For a state that ends in an assistant message with tool calls: when every call
  names a registered tool that returns, the step succeeds; and whenever it succeeds,
  its command goes back to \<^verbatim>\<open>chat\<close> and its update holds one tool message per call, in
  the order of the calls, each with the name and the identifier of its call and the
  result of that call's tool; the update is appended to the state as it is.
\<close>

theorem tool_call_results_in_call_order:
  assumes "messages state \<noteq> []" and "last (messages state) = AIMessage c tcs"
  shows "((\<forall>tc\<in>set tcs. \<exists>t r. tools_by_name env (tc_name tc) = Some t \<and> t (tc_args tc) = Inr r)
            \<longrightarrow> (\<exists>outputs. tool_call env state = Inr (Command outputs Chat)))
       \<and> (\<forall>cmd. tool_call env state = Inr cmd \<longrightarrow>
             goto cmd = Chat
           \<and> list_all2 (\<lambda>tc m. \<exists>t r. tools_by_name env (tc_name tc) = Some t
                                  \<and> t (tc_args tc) = Inr r
                                  \<and> m = ToolMessage r (tc_name tc) (tc_id tc)) tcs (update cmd)
           \<and> messages (apply_command state cmd) = messages state @ update cmd)"
proof (intro conjI impI allI)
  assume "\<forall>tc\<in>set tcs. \<exists>t r. tools_by_name env (tc_name tc) = Some t \<and> t (tc_args tc) = Inr r"
  from tool_outputs_total[OF this, of "[]"] obtain outs where "tool_outputs env tcs [] = Inr outs" ..
  with assms show "\<exists>outputs. tool_call env state = Inr (Command outputs Chat)"
    by (simp add: tool_call_def)
next
  fix cmd assume ok: "tool_call env state = Inr cmd"
  with assms obtain outs where outs: "tool_outputs env tcs [] = Inr outs" and cmd: "cmd = Command outs Chat"
    by (auto simp: tool_call_def split: sum.splits)
  from cmd show "goto cmd = Chat" by simp
  from tool_outputs_Inr[OF outs] cmd
  show "list_all2 (\<lambda>tc m. \<exists>t r. tools_by_name env (tc_name tc) = Some t
                                  \<and> t (tc_args tc) = Inr r
                                  \<and> m = ToolMessage r (tc_name tc) (tc_id tc)) tcs (update cmd)"
    by auto
  show "messages (apply_command state cmd) = messages state @ update cmd"
    by (simp add: apply_command_def)
qed

theorem tool_call_results_in_call_order_witness:
  "tool_call abc_env abc_state
     = Inr (Command [ToolMessage (Str ''a'') ''A'' ''1'', ToolMessage (Str ''b'') ''B'' ''2'',
                     ToolMessage (Str ''c'') ''C'' ''3''] Chat)
   \<and> messages (apply_command abc_state (Command [ToolMessage (Str ''a'') ''A'' ''1'',
        ToolMessage (Str ''b'') ''B'' ''2'', ToolMessage (Str ''c'') ''C'' ''3''] Chat))
     = messages abc_state @ [ToolMessage (Str ''a'') ''A'' ''1'', ToolMessage (Str ''b'') ''B'' ''2'',
                     ToolMessage (Str ''c'') ''C'' ''3'']"
proof -
  let ?tcs = "[ToolCall ''A'' [] ''1'', ToolCall ''B'' [] ''2'', ToolCall ''C'' [] ''3'']"
  have ne: "messages abc_state \<noteq> []" by (simp add: abc_state_def)
  have la: "last (messages abc_state) = AIMessage (Str []) ?tcs" by (simp add: abc_state_def)
  have reg: "\<forall>tc\<in>set ?tcs. \<exists>t r. tools_by_name abc_env (tc_name tc) = Some t \<and> t (tc_args tc) = Inr r"
    by (simp add: abc_env_def weather_env_def)
  from tool_call_results_in_call_order[OF ne la, of abc_env] reg
  obtain outputs where run: "tool_call abc_env abc_state = Inr (Command outputs Chat)"
    and rel: "list_all2 (\<lambda>tc m. \<exists>t r. tools_by_name abc_env (tc_name tc) = Some t
                                  \<and> t (tc_args tc) = Inr r
                                  \<and> m = ToolMessage r (tc_name tc) (tc_id tc)) ?tcs outputs"
    and app: "messages (apply_command abc_state (Command outputs Chat)) = messages abc_state @ outputs"
    by fastforce
  from rel have "outputs = [ToolMessage (Str ''a'') ''A'' ''1'', ToolMessage (Str ''b'') ''B'' ''2'',
                     ToolMessage (Str ''c'') ''C'' ''3'']"
    by (auto simp: list_all2_Cons1 abc_env_def weather_env_def)
  with run app show ?thesis by simp
qed

text \<open>
  C9, as stated, fails: the calls are processed in order and the first failure ends the
  step, so a registered tool that raises before the unknown one is reached decides the
  exception.
\<close>

theorem unknown_tool_shadowed_counterexample:
  "last (messages two_calls_state)
     = AIMessage (Str []) [ToolCall ''A'' [] ''call_1'', ToolCall ''B'' [] ''call_2'']
   \<and> tools_by_name failing_tool_env ''B'' = None
   \<and> tool_call failing_tool_env two_calls_state = Inl (ToolError ''invalid arguments'')"
  by (simp add: two_calls_state_def failing_tool_env_def weather_env_def tool_call_def)

text \<open>
  C9, amended. A step whose calls hold a name absent from the registry always fails and
  returns no command. The exception is the \<^verbatim>\<open>KeyError\<close> of that name, or the
  \<^verbatim>\<open>KeyError\<close> of an absent name before it, or the exception a tool called before it
  raised; it is the \<^verbatim>\<open>KeyError\<close> of that name whenever every call before it completed.
\<close>

theorem unknown_tool_fails_step:
  assumes "messages state \<noteq> []"
      and "last (messages state) = AIMessage c (pre @ tc # post)"
      and "tools_by_name env (tc_name tc) = None"
  shows "(\<exists>e. tool_call env state = Inl e \<and>
            (e = KeyError (tc_name tc)
             \<or> (\<exists>p\<in>set pre. tools_by_name env (tc_name p) = None \<and> e = KeyError (tc_name p))
             \<or> (\<exists>p\<in>set pre. \<exists>t. tools_by_name env (tc_name p) = Some t \<and> t (tc_args p) = Inl e)))
       \<and> ((\<forall>p\<in>set pre. \<exists>t r. tools_by_name env (tc_name p) = Some t \<and> t (tc_args p) = Inr r)
            \<longrightarrow> tool_call env state = Inl (KeyError (tc_name tc)))"
proof (intro conjI impI)
  from tool_outputs_absent[OF assms(3), of pre post "[]"] assms(1,2)
  show "\<exists>e. tool_call env state = Inl e \<and>
            (e = KeyError (tc_name tc)
             \<or> (\<exists>p\<in>set pre. tools_by_name env (tc_name p) = None \<and> e = KeyError (tc_name p))
             \<or> (\<exists>p\<in>set pre. \<exists>t. tools_by_name env (tc_name p) = Some t \<and> t (tc_args p) = Inl e))"
    by (auto simp: tool_call_def)
next
  assume "\<forall>p\<in>set pre. \<exists>t r. tools_by_name env (tc_name p) = Some t \<and> t (tc_args p) = Inr r"
  from tool_outputs_first_absent[OF assms(3) this, of post "[]"] assms(1,2)
  show "tool_call env state = Inl (KeyError (tc_name tc))"
    by (simp add: tool_call_def)
qed

theorem unknown_tool_fails_step_witness:
  "tool_call weather_env
     \<lparr>messages = [AIMessage (Str []) [ToolCall ''get_weather'' [] ''1'', ToolCall ''get_time'' [] ''2'',
                                       ToolCall ''get_weather'' [] ''3'']],
      long_term_memory = []\<rparr> = Inl (KeyError ''get_time'')"
proof -
  let ?st = "\<lparr>messages = [AIMessage (Str []) [ToolCall ''get_weather'' [] ''1'', ToolCall ''get_time'' [] ''2'',
                                       ToolCall ''get_weather'' [] ''3'']],
      long_term_memory = []\<rparr>"
  have 1: "messages ?st \<noteq> []" by simp
  have 2: "last (messages ?st) = AIMessage (Str []) ([ToolCall ''get_weather'' [] ''1'']
              @ ToolCall ''get_time'' [] ''2'' # [ToolCall ''get_weather'' [] ''3''])" by simp
  have 3: "tools_by_name weather_env (tc_name (ToolCall ''get_time'' [] ''2'')) = None"
    by (simp add: weather_env_def)
  have 4: "\<forall>p\<in>set [ToolCall ''get_weather'' [] ''1'']. \<exists>t r.
             tools_by_name weather_env (tc_name p) = Some t \<and> t (tc_args p) = Inr r"
    by (simp add: weather_env_def)
  from unknown_tool_fails_step[OF 1 2 3] 4 show ?thesis by simp
qed

subsection \<open>The response assembler\<close>

lemma process_messages_filter:
  "process_messages env ms =
     map (\<lambda>m. \<lparr>role = openai_role m, content = py_str env (openai_content (content_of m))\<rparr>)
       (filter (\<lambda>m. (openai_role m = User \<or> openai_role m = Assistant)
                     \<and> truthy (openai_content (content_of m))) ms)"
  by (induction ms) (auto simp: process_messages_def convert_to_openai_messages_def)

lemma process_messages_append:
  "process_messages env (xs @ ys) = process_messages env xs @ process_messages env ys"
  by (simp add: process_messages_filter)

lemma py_str_truthy: "truthy c \<Longrightarrow> py_str env c \<noteq> []"
  by (cases c) auto

text \<open>A tool-use block never reaches the rendered content.\<close>

lemma openai_content_tool_use:
  "openai_content (Blocks [ToolUseBlock i]) = Str []"
  "openai_content (Blocks [TextBlock t, ToolUseBlock i]) = Str t"
  by simp_all

text \<open>
  C10. Every element of the assembled list has the role user or assistant and a text
  that is not empty. A user or assistant message whose content is empty (no text, no
  block, or text blocks that join to nothing) is left out wherever it stands; so is, in
  particular, an assistant message that carries only tool calls.
\<close>

theorem process_messages_keeps_nonempty_chat_turns:
  "(\<forall>m\<in>set (process_messages env ms). (role m = User \<or> role m = Assistant) \<and> content m \<noteq> [])
   \<and> (\<forall>c tcs. \<not> truthy (openai_content c) \<longrightarrow>
         process_messages env (xs @ AIMessage c tcs # ys) = process_messages env (xs @ ys))
   \<and> (\<forall>c. \<not> truthy (openai_content c) \<longrightarrow>
         process_messages env (xs @ HumanMessage c # ys) = process_messages env (xs @ ys))
   \<and> process_messages env (xs @ AIMessage (Str []) tcs # ys) = process_messages env (xs @ ys)"
  by (auto simp: process_messages_filter py_str_truthy)

theorem process_messages_keeps_nonempty_chat_turns_witness:
  "process_messages weather_env
     [SystemMessage (Str ''be brief''),
      HumanMessage (Str ''What is the weather?''),
      AIMessage (Str []) [ToolCall ''get_weather'' [(''city'', ''Paris'')] ''call_1''],
      ToolMessage (Str ''18C, cloudy'') ''get_weather'' ''call_1'',
      AIMessage (Blocks [TextBlock ''It is 18C'', TextBlock ''and cloudy.'']) []]
   = [\<lparr>role = User, content = ''What is the weather?''\<rparr>,
      \<lparr>role = Assistant, content = ''It is 18C'' @ newline @ ''and cloudy.''\<rparr>]
   \<and> list_all (\<lambda>m. (role m = User \<or> role m = Assistant) \<and> content m \<noteq> [])
        (process_messages weather_env
          [SystemMessage (Str ''be brief''),
           HumanMessage (Str ''What is the weather?''),
           AIMessage (Str []) [ToolCall ''get_weather'' [(''city'', ''Paris'')] ''call_1''],
           ToolMessage (Str ''18C, cloudy'') ''get_weather'' ''call_1'',
           AIMessage (Blocks [TextBlock ''It is 18C'', TextBlock ''and cloudy.'']) []])"
proof -
  let ?ms = "[SystemMessage (Str ''be brief''),
      HumanMessage (Str ''What is the weather?''),
      AIMessage (Str []) [ToolCall ''get_weather'' [(''city'', ''Paris'')] ''call_1''],
      ToolMessage (Str ''18C, cloudy'') ''get_weather'' ''call_1'',
      AIMessage (Blocks [TextBlock ''It is 18C'', TextBlock ''and cloudy.'']) []]"
  have "process_messages weather_env ?ms
     = [\<lparr>role = User, content = ''What is the weather?''\<rparr>,
        \<lparr>role = Assistant, content = ''It is 18C'' @ newline @ ''and cloudy.''\<rparr>]"
    by (simp add: process_messages_def convert_to_openai_messages_def)
  moreover have "list_all (\<lambda>m. (role m = User \<or> role m = Assistant) \<and> content m \<noteq> [])
        (process_messages weather_env ?ms)"
    using process_messages_keeps_nonempty_chat_turns[of weather_env ?ms]
    unfolding list_all_iff by blast
  ultimately show ?thesis by blast
qed

subsection \<open>What the operations leave unchanged\<close>

lemma emit_simps [simp]:
  "graph (emit evs w) = graph w" "checkpointer (emit evs w) = checkpointer w"
  "memory (emit evs w) = memory w" "checkpoints (emit evs w) = checkpoints w"
  "checkpoint_writes (emit evs w) = checkpoint_writes w"
  "trace (emit evs w) = trace w @ evs"
  by (simp_all add: emit_def)

lemma log_event_simps [simp]:
  "graph (log_event l n w) = graph w" "checkpointer (log_event l n w) = checkpointer w"
  "memory (log_event l n w) = memory w" "checkpoints (log_event l n w) = checkpoints w"
  "checkpoint_writes (log_event l n w) = checkpoint_writes w"
  "trace (log_event l n w) = trace w @ [Log l n]"
  by (simp_all add: log_event_def)

lemma latest_cong: "checkpoints w' = checkpoints w \<Longrightarrow> latest w' t = latest w t"
  by (simp add: latest_def)

lemma latest_none_iff: "latest w t = None \<longleftrightarrow> filter (\<lambda>r. fst r = t) (checkpoints w) = []"
  by (simp add: latest_def split: list.splits)

subsection \<open>Clearing a session\<close>

lemma get_checkpointer_available:
  assumes "checkpointer w \<noteq> None \<or> mongodb_saver env = None"
  shows "\<exists>w1 cp. get_checkpointer env w = (Inr (Some cp), w1) \<and> checkpointer w1 = Some cp
          \<and> checkpoints w1 = checkpoints w \<and> checkpoint_writes w1 = checkpoint_writes w
          \<and> graph w1 = graph w \<and> memory w1 = memory w"
  using assms by (auto simp: get_checkpointer_def)

lemma clear_with_checkpointer:
  assumes "checkpointer w = Some cp"
  shows "clear_chat_history env sid w =
          (Inr (), emit [LogCleared sid (length (filter (\<lambda>r. fst r = sid) (checkpoints w)))
                           (length (filter (\<lambda>r. fst r = sid) (checkpoint_writes w)))]
                     (w\<lparr>checkpoints := filter (\<lambda>r. fst r \<noteq> sid) (checkpoints w),
                        checkpoint_writes := filter (\<lambda>r. fst r \<noteq> sid) (checkpoint_writes w)\<rparr>))"
  using assms by (simp add: clear_chat_history_def get_checkpointer_def delete_many_def)

lemma filter_filter_neq: "filter (\<lambda>r. fst r = s) (filter (\<lambda>r. fst r \<noteq> s) xs) = []"
  by (induction xs) auto

lemma filter_neq_idem: "filter (\<lambda>r. fst r \<noteq> s) (filter (\<lambda>r. fst r \<noteq> s) xs) = filter (\<lambda>r. fst r \<noteq> s) xs"
  by simp

text \<open>
  C8. With the checkpointer at hand (kept from an earlier call, or built now),
  \<^verbatim>\<open>clear_chat_history\<close> succeeds: it removes every record of the session from both
  collections, keeps the records of every other session, and its log line reports how
  many records of each collection it removed. A second call right after it succeeds as
  well, reports zero and zero, and changes neither collection.
\<close>

theorem clear_twice_reports_zero:
  assumes "checkpointer w \<noteq> None \<or> mongodb_saver env = None"
  shows "\<exists>w1 w2.
      clear_chat_history env sid w = (Inr (), w1)
    \<and> checkpoints w1 = filter (\<lambda>r. fst r \<noteq> sid) (checkpoints w)
    \<and> checkpoint_writes w1 = filter (\<lambda>r. fst r \<noteq> sid) (checkpoint_writes w)
    \<and> latest w1 sid = None
    \<and> last (trace w1) = LogCleared sid (length (filter (\<lambda>r. fst r = sid) (checkpoints w)))
                                        (length (filter (\<lambda>r. fst r = sid) (checkpoint_writes w)))
    \<and> clear_chat_history env sid w1 = (Inr (), w2)
    \<and> last (trace w2) = LogCleared sid 0 0
    \<and> checkpoints w2 = checkpoints w1
    \<and> checkpoint_writes w2 = checkpoint_writes w1"
proof -
  from get_checkpointer_available[OF assms] obtain w0 cp where
    g: "get_checkpointer env w = (Inr (Some cp), w0)" and cp: "checkpointer w0 = Some cp"
    and c: "checkpoints w0 = checkpoints w" and cw: "checkpoint_writes w0 = checkpoint_writes w"
    by auto
  let ?n = "length (filter (\<lambda>r. fst r = sid) (checkpoints w))"
  let ?m = "length (filter (\<lambda>r. fst r = sid) (checkpoint_writes w))"
  let ?w1 = "emit [LogCleared sid ?n ?m]
               (w0\<lparr>checkpoints := filter (\<lambda>r. fst r \<noteq> sid) (checkpoints w),
                   checkpoint_writes := filter (\<lambda>r. fst r \<noteq> sid) (checkpoint_writes w)\<rparr>)"
  have first: "clear_chat_history env sid w = (Inr (), ?w1)"
    using g c cw by (simp add: clear_chat_history_def delete_many_def)
  have cp1: "checkpointer ?w1 = Some cp" using cp by simp
  let ?w2 = "emit [LogCleared sid 0 0] ?w1"
  have second: "clear_chat_history env sid ?w1 = (Inr (), ?w2)"
    unfolding clear_with_checkpointer[OF cp1]
    by (simp add: filter_filter_neq emit_def)
  have none: "latest ?w1 sid = None"
    by (simp add: latest_none_iff filter_filter_neq)
  show ?thesis
    using first second none by (intro exI[of _ ?w1] exI[of _ ?w2]) simp
qed

theorem clear_twice_reports_zero_witness:
  "last (trace (snd (clear_chat_history weather_env ''S1'' stored_world))) = LogCleared ''S1'' 2 1
   \<and> fst (clear_chat_history weather_env ''S1'' stored_world) = Inr ()
   \<and> map fst (checkpoints (snd (clear_chat_history weather_env ''S1'' stored_world))) = [''S2'']
   \<and> fst (clear_chat_history weather_env ''S1''
            (snd (clear_chat_history weather_env ''S1'' stored_world))) = Inr ()
   \<and> last (trace (snd (clear_chat_history weather_env ''S1''
            (snd (clear_chat_history weather_env ''S1'' stored_world))))) = LogCleared ''S1'' 0 0"
proof -
  have a: "checkpointer stored_world \<noteq> None \<or> mongodb_saver weather_env = None"
    by (simp add: stored_world_def)
  from clear_twice_reports_zero[OF a, of "''S1''"] obtain w1 w2 where
    1: "clear_chat_history weather_env ''S1'' stored_world = (Inr (), w1)"
    and 2: "checkpoints w1 = filter (\<lambda>r. fst r \<noteq> ''S1'') (checkpoints stored_world)"
    and 3: "last (trace w1) = LogCleared ''S1''
              (length (filter (\<lambda>r. fst r = ''S1'') (checkpoints stored_world)))
              (length (filter (\<lambda>r. fst r = ''S1'') (checkpoint_writes stored_world)))"
    and 4: "clear_chat_history weather_env ''S1'' w1 = (Inr (), w2)"
    and 5: "last (trace w2) = LogCleared ''S1'' 0 0"
    by blast
  from 3 have "last (trace w1) = LogCleared ''S1'' 2 1" by (simp add: stored_world_def)
  moreover from 2 have "map fst (checkpoints w1) = [''S2'']" by (simp add: stored_world_def)
  ultimately show ?thesis using 1 4 5 by simp
qed

subsection \<open>Graph construction\<close>

lemma get_checkpointer_frame:
  "get_checkpointer env w = (r, w1) \<Longrightarrow>
     graph w1 = graph w \<and> memory w1 = memory w \<and> checkpoints w1 = checkpoints w
     \<and> checkpoint_writes w1 = checkpoint_writes w"
  by (auto simp: get_checkpointer_def Let_def split: if_splits option.splits)

lemma create_graph_frame:
  "create_graph env w = (r, w1) \<Longrightarrow>
     memory w1 = memory w \<and> checkpoints w1 = checkpoints w
     \<and> checkpoint_writes w1 = checkpoint_writes w"
  by (auto simp: create_graph_def create_graph_except_def Let_def
           split: if_splits prod.splits sum.splits dest!: get_checkpointer_frame)

lemma ensure_graph_frame:
  "ensure_graph env w = (r, w1) \<Longrightarrow>
     memory w1 = memory w \<and> checkpoints w1 = checkpoints w
     \<and> checkpoint_writes w1 = checkpoint_writes w"
  by (auto simp: ensure_graph_def split: if_splits prod.splits sum.splits dest!: create_graph_frame)

subsection \<open>Memory retrieval\<close>

lemma long_term_memory_client_frame:
  "long_term_memory_client env w = (r, w1) \<Longrightarrow>
     graph w1 = graph w \<and> checkpointer w1 = checkpointer w \<and> checkpoints w1 = checkpoints w
     \<and> checkpoint_writes w1 = checkpoint_writes w \<and> trace w1 = trace w"
  by (auto simp: long_term_memory_client_def split: option.splits)

lemma relevant_memory_try_frame:
  "relevant_memory_try env uid q w = (r, w1) \<Longrightarrow>
     graph w1 = graph w \<and> checkpointer w1 = checkpointer w \<and> checkpoints w1 = checkpoints w
     \<and> checkpoint_writes w1 = checkpoint_writes w \<and> trace w1 = trace w"
  by (auto simp: relevant_memory_try_def split: prod.splits sum.splits
           dest!: long_term_memory_client_frame)

lemma get_relevant_memory_frame:
  "get_relevant_memory env uid q w = (found, w1) \<Longrightarrow>
     graph w1 = graph w \<and> checkpointer w1 = checkpointer w \<and> checkpoints w1 = checkpoints w
     \<and> checkpoint_writes w1 = checkpoint_writes w"
  by (auto simp: get_relevant_memory_def split: prod.splits sum.splits
           dest!: relevant_memory_try_frame)

lemma relevant_memory_try_memory:
  "memory w' = memory w \<Longrightarrow>
     fst (relevant_memory_try env uid q w') = fst (relevant_memory_try env uid q w)"
  by (auto simp: relevant_memory_try_def long_term_memory_client_def
           split: option.splits sum.splits)

lemma get_relevant_memory_fst:
  "fst (get_relevant_memory env uid q w) =
     (case fst (relevant_memory_try env uid q w) of Inl e \<Rightarrow> [] | Inr text \<Rightarrow> text)"
  by (auto simp: get_relevant_memory_def split: prod.splits sum.splits)

lemma get_relevant_memory_memory:
  "memory w' = memory w \<Longrightarrow>
     fst (get_relevant_memory env uid q w') = fst (get_relevant_memory env uid q w)"
  using relevant_memory_try_memory[of w' w env uid q] by (simp add: get_relevant_memory_fst)

lemma relevant_memory_try_fails_iff:
  "(\<exists>e. fst (relevant_memory_try env uid q w) = Inl e) \<longleftrightarrow>
     (memory w = None \<and> memory_from_config env \<noteq> None)
     \<or> ((memory w \<noteq> None \<or> memory_from_config env = None)
        \<and> ((\<exists>e. memory_search env (str_opt uid) q = Inl e)
           \<or> (\<exists>r e. memory_search env (str_opt uid) q = Inr r \<and> render_memory r = Inl e)))"
  by (auto simp: relevant_memory_try_def long_term_memory_client_def
           split: option.splits sum.splits)

subsection \<open>The runtime\<close>

lemma foldl_apply_command:
  "messages (foldl apply_command st cmds) = messages st @ concat (map update cmds)
   \<and> long_term_memory (foldl apply_command st cmds) = long_term_memory st"
  by (induction cmds arbitrary: st) (auto simp: apply_command_def)

lemma run_graph_final:
  "run_graph env fuel n st = Some (Inr final, cmds) \<Longrightarrow> final = foldl apply_command st cmds"
proof (induction fuel arbitrary: n st cmds)
  case 0
  then show ?case by (cases n) simp_all
next
  case (Suc fuel)
  show ?case
  proof (cases "n = END")
    case True
    with Suc.prems show ?thesis by simp
  next
    case False
    then have eq: "run_graph env (Suc fuel) n st =
       (case run_node env n st of
          Inl e \<Rightarrow> Some (Inl e, [])
        | Inr cmd \<Rightarrow>
            (case run_graph env fuel (goto cmd) (apply_command st cmd) of
               None \<Rightarrow> None
             | Some (r, cmds) \<Rightarrow> Some (r, cmd # cmds)))"
      by (cases n) simp_all
    from Suc.prems obtain cmd rest where
      "run_node env n st = Inr cmd"
      "run_graph env fuel (goto cmd) (apply_command st cmd) = Some (Inr final, rest)"
      "cmds = cmd # rest"
      unfolding eq by (auto split: sum.splits option.splits)
    with Suc.IH show ?thesis by auto
  qed
qed

lemma prior_messages_cong:
  "checkpoints w' = checkpoints w \<Longrightarrow> prior_messages g t w' = prior_messages g t w"
  by (simp add: prior_messages_def latest_def split: option.splits)

lemma get_response_success:
  assumes eg: "ensure_graph env w = (Inr (), w1)" and g: "graph w1 = Some g"
    and ne: "msgs \<noteq> []" and co: "coerce_messages msgs = Inr new"
    and rm: "get_relevant_memory env uid (content (last msgs)) w1 = (found, w2)"
    and st: "st0 = \<lparr>messages = prior_messages g sid w @ new,
                    long_term_memory = (if found \<noteq> [] then found else ''No relevant memory found.'')\<rparr>"
    and run: "run_graph env fuel Chat st0 = Some (Inr final, cmds)"
  shows "get_response env fuel msgs sid uid w =
           Some (Inr (process_messages env (messages final)),
                 schedule_memory_update env uid sid (messages final)
                   (record_steps g sid False st0 cmds (put_checkpoint g sid st0 w2)))"
proof -
  from get_relevant_memory_frame[OF rm] g have g2: "graph w2 = Some g"
    and c2: "checkpoints w2 = checkpoints w1" by simp_all
  from ensure_graph_frame[OF eg] c2 have "checkpoints w2 = checkpoints w" by simp
  then have pm: "prior_messages g sid w2 = prior_messages g sid w" by (rule prior_messages_cong)
  have "ainvoke env g sid fuel (dump_messages msgs)
          (if found \<noteq> [] then found else ''No relevant memory found.'') w2
        = Some (Inr final, record_steps g sid False st0 cmds (put_checkpoint g sid st0 w2))"
    using co run pm st by (simp add: ainvoke_def invoke_graph_def dump_messages_def Let_def)
  then show ?thesis
    using eg ne rm g2 by (simp add: get_response_def Let_def)
qed

lemma weather_run:
  "run_graph weather_env 5 Chat
     \<lparr>messages = [HumanMessage (Str ''What is the weather?'')],
      long_term_memory = ''No relevant memory found.''\<rparr> = Some (Inr weather_final, weather_commands)"
  by code_simp

text \<open>
  C3. When the \<^verbatim>\<open>try\<close> block of the retrieval raises (the client cannot be built, the
  search fails, or the response lacks a key), the retrieval returns the empty string.
  \<^verbatim>\<open>get_response\<close> then runs the graph with the placeholder
  \<^verbatim>\<open>No relevant memory found.\<close> as long-term memory, and when that run ends in a final
  state it returns the assembled messages of that state.
\<close>

theorem memory_failure_uses_placeholder:
  "(((memory w0 = None \<and> memory_from_config env = Some e0)
      \<or> memory_search env (str_opt u) q = Inl e0
      \<or> (\<exists>r. memory_search env (str_opt u) q = Inr r \<and> render_memory r = Inl e0))
     \<longrightarrow> fst (get_relevant_memory env u q w0) = [])
   \<and> (ensure_graph env w = (Inr (), w1) \<and> graph w1 = Some g
        \<and> msgs \<noteq> [] \<and> coerce_messages msgs = Inr new
        \<and> fst (relevant_memory_try env user_id (content (last msgs)) w) = Inl e
        \<and> run_graph env fuel Chat
             \<lparr>messages = prior_messages g session_id w @ new,
              long_term_memory = ''No relevant memory found.''\<rparr> = Some (Inr final, cmds)
       \<longrightarrow> fst (get_relevant_memory env user_id (content (last msgs)) w) = []
         \<and> (\<exists>w'. get_response env fuel msgs session_id user_id w
                   = Some (Inr (process_messages env (messages final)), w'))
         \<and> long_term_memory final = ''No relevant memory found.'')"
proof (intro conjI impI)
  assume "(memory w0 = None \<and> memory_from_config env = Some e0)
      \<or> memory_search env (str_opt u) q = Inl e0
      \<or> (\<exists>r. memory_search env (str_opt u) q = Inr r \<and> render_memory r = Inl e0)"
  then have "\<exists>e. fst (relevant_memory_try env u q w0) = Inl e"
    unfolding relevant_memory_try_fails_iff by auto
  then show "fst (get_relevant_memory env u q w0) = []"
    by (auto simp: get_relevant_memory_fst)
next
  assume h: "ensure_graph env w = (Inr (), w1) \<and> graph w1 = Some g
        \<and> msgs \<noteq> [] \<and> coerce_messages msgs = Inr new
        \<and> fst (relevant_memory_try env user_id (content (last msgs)) w) = Inl e
        \<and> run_graph env fuel Chat
             \<lparr>messages = prior_messages g session_id w @ new,
              long_term_memory = ''No relevant memory found.''\<rparr> = Some (Inr final, cmds)"
  let ?q = "content (last msgs)"
  from h have eg: "ensure_graph env w = (Inr (), w1)" and g: "graph w1 = Some g"
    and ne: "msgs \<noteq> []" and co: "coerce_messages msgs = Inr new"
    and fail: "fst (relevant_memory_try env user_id ?q w) = Inl e"
    and run: "run_graph env fuel Chat
             \<lparr>messages = prior_messages g session_id w @ new,
              long_term_memory = ''No relevant memory found.''\<rparr> = Some (Inr final, cmds)"
    by blast+
  from fail have a: "fst (get_relevant_memory env user_id ?q w) = []"
    by (simp add: get_relevant_memory_fst)
  from ensure_graph_frame[OF eg] have "memory w1 = memory w" by simp
  from get_relevant_memory_memory[OF this] a
  have "fst (get_relevant_memory env user_id ?q w1) = []" by simp
  then obtain w2 where rm: "get_relevant_memory env user_id ?q w1 = ([], w2)"
    by (cases "get_relevant_memory env user_id ?q w1") simp
  from get_response_success[OF eg g ne co rm _ run]
  have b: "\<exists>w'. get_response env fuel msgs session_id user_id w
                 = Some (Inr (process_messages env (messages final)), w')" by simp
  from run_graph_final[OF run] have c: "long_term_memory final = ''No relevant memory found.''"
    by (simp add: foldl_apply_command)
  from a show "fst (get_relevant_memory env user_id ?q w) = []" .
  from b show "\<exists>w'. get_response env fuel msgs session_id user_id w
                   = Some (Inr (process_messages env (messages final)), w')" .
  from c show "long_term_memory final = ''No relevant memory found.''" .
qed

theorem memory_failure_uses_placeholder_witness:
  "fst (get_relevant_memory memory_down_env (Some ''u1'') ''What is the weather?'' initial_world) = []
   \<and> fst (get_relevant_memory malformed_memory_env (Some ''u1'') ''What is the weather?''
            initial_world) = []
   \<and> fst (the (get_response memory_down_env 5 weather_question ''S1'' (Some ''u1'') initial_world))
       = Inr [\<lparr>role = User, content = ''What is the weather?''\<rparr>,
              \<lparr>role = Assistant, content = ''It is 18C and cloudy in Paris.''\<rparr>]"
proof -
  let ?w1 = "snd (ensure_graph memory_down_env initial_world)"
  let ?g = "CompiledStateGraph (Some MongoDBSaver)"
  have "fst (ensure_graph memory_down_env initial_world) = Inr ()" by code_simp
  then have 1: "ensure_graph memory_down_env initial_world = (Inr (), ?w1)"
    by (simp add: prod_eq_iff)
  have 2: "graph ?w1 = Some ?g" by code_simp
  have 3: "weather_question \<noteq> []" by (simp add: weather_question_def)
  have 4: "coerce_messages weather_question = Inr [HumanMessage (Str ''What is the weather?'')]"
    by (simp add: weather_question_def)
  have 5: "fst (relevant_memory_try memory_down_env (Some ''u1'') (content (last weather_question))
             initial_world) = Inl (ServiceError ''unavailable'')"
    by code_simp
  have 6: "run_graph memory_down_env 5 Chat
             \<lparr>messages = prior_messages ?g ''S1'' initial_world @ [HumanMessage (Str ''What is the weather?'')],
              long_term_memory = ''No relevant memory found.''\<rparr>
           = Some (Inr weather_final, weather_commands)"
    by code_simp
  have 7: "content (last weather_question) = ''What is the weather?''"
    by (simp add: weather_question_def)
  have 8: "process_messages memory_down_env (messages weather_final)
           = [\<lparr>role = User, content = ''What is the weather?''\<rparr>,
              \<lparr>role = Assistant, content = ''It is 18C and cloudy in Paris.''\<rparr>]"
    by (simp add: process_messages_def convert_to_openai_messages_def weather_final_def)
  have 9: "memory_search memory_down_env (str_opt (Some ''u1'')) ''What is the weather?''
             = Inl (ServiceError ''unavailable'')"
    by (simp add: memory_down_env_def)
  have 10: "memory_search malformed_memory_env (str_opt (Some ''u1'')) ''What is the weather?''
             = Inr [(''results'', [[(''text'', ''likes rain'')]])]
            \<and> render_memory [(''results'', [[(''text'', ''likes rain'')]])] = Inl (KeyError ''memory'')"
    by (simp add: malformed_memory_env_def render_memory_def)
  note a = memory_failure_uses_placeholder[where env = memory_down_env and ?w0.0 = initial_world
             and ?e0.0 = "ServiceError ''unavailable''" and u = "Some ''u1''"
             and q = "''What is the weather?''", THEN conjunct1]
  note b = memory_failure_uses_placeholder[where env = malformed_memory_env and ?w0.0 = initial_world
             and ?e0.0 = "KeyError ''memory''" and u = "Some ''u1''"
             and q = "''What is the weather?''", THEN conjunct1]
  note c = memory_failure_uses_placeholder[where env = memory_down_env and w = initial_world
             and ?w1.0 = ?w1 and g = ?g and msgs = weather_question
             and new = "[HumanMessage (Str ''What is the weather?'')]" and user_id = "Some ''u1''"
             and e = "ServiceError ''unavailable''" and fuel = 5 and session_id = "''S1''"
             and final = weather_final and cmds = weather_commands, THEN conjunct2]
  from a 9 have A: "fst (get_relevant_memory memory_down_env (Some ''u1'') ''What is the weather?''
                      initial_world) = []" by blast
  from b 10 have B: "fst (get_relevant_memory malformed_memory_env (Some ''u1'') ''What is the weather?''
                      initial_world) = []" by blast
  from c 1 2 3 4 5 6 obtain w' where
    "get_response memory_down_env 5 weather_question ''S1'' (Some ''u1'') initial_world
       = Some (Inr (process_messages memory_down_env (messages weather_final)), w')"
    by blast
  with 8 A B show ?thesis by simp
qed

subsection \<open>Degraded mode\<close>

lemma put_checkpoint_none [simp]: "checkpointer_of g = None \<Longrightarrow> put_checkpoint g t st w = w"
  by (simp add: put_checkpoint_def)

lemma put_writes_none [simp]: "checkpointer_of g = None \<Longrightarrow> put_writes g t ms w = w"
  by (simp add: put_writes_def)

lemma record_steps_none:
  "checkpointer_of g = None \<Longrightarrow> record_steps g t False st cmds w = w"
  by (induction cmds arbitrary: st w) (simp_all add: Let_def)

lemma ensure_graph_degraded:
  assumes "graph w = None" and "checkpointer w = None" and "mongodb_saver env = Some e"
      and "ENVIRONMENT env = PRODUCTION"
  shows "ensure_graph env w =
           (Inr (), log_event INFO ''graph_created''
                      ((log_event WARNING ''continuing_without_checkpointer''
                         (log_event ERROR ''mongodb_checkpointer_creation_failed'' w))
                       \<lparr>graph := Some (CompiledStateGraph None)\<rparr>))"
  using assms
  by (simp add: ensure_graph_def create_graph_def get_checkpointer_def Let_def log_event_def emit_def)

lemma ensure_graph_fatal:
  assumes "graph w = None" and "checkpointer w = None" and "mongodb_saver env = Some e"
      and "ENVIRONMENT env \<noteq> PRODUCTION"
  shows "ensure_graph env w =
           (Inl e, log_event ERROR ''graph_creation_failed''
                     (log_event ERROR ''mongodb_checkpointer_creation_failed'' w))"
  using assms
  by (simp add: ensure_graph_def create_graph_def create_graph_except_def get_checkpointer_def Let_def)

text \<open>
  The single-shot path. Let the construction of the checkpointer fail with \<open>e\<close> on an
  agent that has neither graph nor checkpointer. In production the graph is compiled
  without checkpointer, the warning \<^verbatim>\<open>continuing_without_checkpointer\<close> is logged, and
  a call of \<^verbatim>\<open>get_response\<close> whose graph run ends in a final state returns the
  assembled messages of that state and stores nothing. In every other environment
  \<^verbatim>\<open>get_response\<close> raises \<open>e\<close> for every input and every bound on the run, before the
  graph is invoked. The streaming path and the history are treated further down.
\<close>

lemma degraded_single_shot_by_environment:
  assumes "graph w = None" and "checkpointer w = None" and "mongodb_saver env = Some e"
  shows "(ENVIRONMENT env = PRODUCTION \<longrightarrow>
            (\<exists>w1. ensure_graph env w = (Inr (), w1)
                \<and> graph w1 = Some (CompiledStateGraph None)
                \<and> checkpointer w1 = None
                \<and> trace w1 = trace w @ [Log ERROR ''mongodb_checkpointer_creation_failed'',
                                         Log WARNING ''continuing_without_checkpointer'',
                                         Log INFO ''graph_created''])
          \<and> (\<forall>fuel msgs sid uid new final cmds.
                msgs \<noteq> [] \<and> coerce_messages msgs = Inr new
                \<and> run_graph env fuel Chat
                     \<lparr>messages = new,
                      long_term_memory =
                        (if fst (get_relevant_memory env uid (content (last msgs)) w) \<noteq> []
                         then fst (get_relevant_memory env uid (content (last msgs)) w)
                         else ''No relevant memory found.'')\<rparr> = Some (Inr final, cmds)
                \<longrightarrow> (\<exists>w'. get_response env fuel msgs sid uid w
                             = Some (Inr (process_messages env (messages final)), w')
                         \<and> checkpoints w' = checkpoints w
                         \<and> checkpoint_writes w' = checkpoint_writes w)))
       \<and> (ENVIRONMENT env \<noteq> PRODUCTION \<longrightarrow>
            (\<forall>fuel msgs sid uid.
               get_response env fuel msgs sid uid w
                 = Some (Inl e, log_event ERROR ''graph_creation_failed''
                                  (log_event ERROR ''mongodb_checkpointer_creation_failed'' w))))"
proof (intro conjI impI allI)
  assume prod: "ENVIRONMENT env = PRODUCTION"
  note eg = ensure_graph_degraded[OF assms prod]
  show "\<exists>w1. ensure_graph env w = (Inr (), w1)
                \<and> graph w1 = Some (CompiledStateGraph None)
                \<and> checkpointer w1 = None
                \<and> trace w1 = trace w @ [Log ERROR ''mongodb_checkpointer_creation_failed'',
                                         Log WARNING ''continuing_without_checkpointer'',
                                         Log INFO ''graph_created'']"
    unfolding eg using assms(2) by simp
next
  fix fuel msgs sid uid new final cmds
  assume prod: "ENVIRONMENT env = PRODUCTION"
  assume h: "msgs \<noteq> [] \<and> coerce_messages msgs = Inr new
                \<and> run_graph env fuel Chat
                     \<lparr>messages = new,
                      long_term_memory =
                        (if fst (get_relevant_memory env uid (content (last msgs)) w) \<noteq> []
                         then fst (get_relevant_memory env uid (content (last msgs)) w)
                         else ''No relevant memory found.'')\<rparr> = Some (Inr final, cmds)"
  let ?g = "CompiledStateGraph None"
  let ?q = "content (last msgs)"
  obtain w1 where eg: "ensure_graph env w = (Inr (), w1)" and g: "graph w1 = Some ?g"
    using ensure_graph_degraded[OF assms prod] by simp
  obtain found w2 where rm: "get_relevant_memory env uid ?q w1 = (found, w2)"
    by (cases "get_relevant_memory env uid ?q w1")
  from ensure_graph_frame[OF eg] have m: "memory w1 = memory w"
    and c1: "checkpoints w1 = checkpoints w" and cw1: "checkpoint_writes w1 = checkpoint_writes w"
    by simp_all
  from get_relevant_memory_memory[OF m, of env uid ?q] rm
  have found: "fst (get_relevant_memory env uid ?q w) = found" by simp
  have pm: "prior_messages ?g sid w = []" by (simp add: prior_messages_def)
  let ?st0 = "\<lparr>messages = prior_messages ?g sid w @ new,
               long_term_memory = (if found \<noteq> [] then found else ''No relevant memory found.'')\<rparr>"
  from h have "run_graph env fuel Chat
                  \<lparr>messages = new,
                   long_term_memory = (if found \<noteq> [] then found else ''No relevant memory found.'')\<rparr>
                = Some (Inr final, cmds)"
    unfolding found by blast
  then have run: "run_graph env fuel Chat ?st0 = Some (Inr final, cmds)"
    unfolding pm by simp
  from h have ne: "msgs \<noteq> []" and co: "coerce_messages msgs = Inr new" by simp_all
  note gr = get_response_success[OF eg g ne co rm refl run]
  from get_relevant_memory_frame[OF rm] c1 cw1
  have "checkpoints w2 = checkpoints w" "checkpoint_writes w2 = checkpoint_writes w" by simp_all
  then show "\<exists>w'. get_response env fuel msgs sid uid w
                             = Some (Inr (process_messages env (messages final)), w')
                         \<and> checkpoints w' = checkpoints w
                         \<and> checkpoint_writes w' = checkpoint_writes w"
    unfolding gr by (simp add: record_steps_none schedule_memory_update_def)
next
  fix fuel msgs sid uid
  assume "ENVIRONMENT env \<noteq> PRODUCTION"
  from ensure_graph_fatal[OF assms this]
  show "get_response env fuel msgs sid uid w
                 = Some (Inl e, log_event ERROR ''graph_creation_failed''
                                  (log_event ERROR ''mongodb_checkpointer_creation_failed'' w))"
    by (simp add: get_response_def)
qed

lemma degraded_single_shot_example:
  "fst (the (get_response degraded_env 5 weather_question ''S1'' (Some ''u1'') initial_world))
     = Inr [\<lparr>role = User, content = ''What is the weather?''\<rparr>,
            \<lparr>role = Assistant, content = ''It is 18C and cloudy in Paris.''\<rparr>]
   \<and> checkpoints (snd (the (get_response degraded_env 5 weather_question ''S1'' (Some ''u1'')
        initial_world))) = []
   \<and> get_response (degraded_env\<lparr>ENVIRONMENT := STAGING\<rparr>) 5 weather_question ''S1'' (Some ''u1'')
        initial_world
     = Some (Inl (ServiceError ''unreachable''),
             log_event ERROR ''graph_creation_failed''
               (log_event ERROR ''mongodb_checkpointer_creation_failed'' initial_world))"
proof -
  have a: "graph initial_world = None" "checkpointer initial_world = None"
    by (simp_all add: initial_world_def)
  have b: "mongodb_saver degraded_env = Some (ServiceError ''unreachable'')"
    by (simp add: degraded_env_def)
  have b': "mongodb_saver (degraded_env\<lparr>ENVIRONMENT := STAGING\<rparr>) = Some (ServiceError ''unreachable'')"
    by (simp add: degraded_env_def)
  have p: "ENVIRONMENT degraded_env = PRODUCTION" by (simp add: degraded_env_def)
  have s: "ENVIRONMENT (degraded_env\<lparr>ENVIRONMENT := STAGING\<rparr>) \<noteq> PRODUCTION" by simp
  have ne: "weather_question \<noteq> []" by (simp add: weather_question_def)
  have co: "coerce_messages weather_question = Inr [HumanMessage (Str ''What is the weather?'')]"
    by (simp add: weather_question_def)
  have run: "run_graph degraded_env 5 Chat
       \<lparr>messages = [HumanMessage (Str ''What is the weather?'')],
        long_term_memory =
          (if fst (get_relevant_memory degraded_env (Some ''u1'') (content (last weather_question))
                     initial_world) \<noteq> []
           then fst (get_relevant_memory degraded_env (Some ''u1'') (content (last weather_question))
                     initial_world)
           else ''No relevant memory found.'')\<rparr> = Some (Inr weather_final, weather_commands)"
    by code_simp
  have pr: "process_messages degraded_env (messages weather_final)
           = [\<lparr>role = User, content = ''What is the weather?''\<rparr>,
              \<lparr>role = Assistant, content = ''It is 18C and cloudy in Paris.''\<rparr>]"
    by (simp add: process_messages_def convert_to_openai_messages_def weather_final_def)
  have c0: "checkpoints initial_world = []" by (simp add: initial_world_def)
  from degraded_single_shot_by_environment[OF a b] p ne co run
  obtain w' where "get_response degraded_env 5 weather_question ''S1'' (Some ''u1'') initial_world
                     = Some (Inr (process_messages degraded_env (messages weather_final)), w')"
    and "checkpoints w' = checkpoints initial_world"
    by blast
  moreover from degraded_single_shot_by_environment[OF a b'] s
  have "get_response (degraded_env\<lparr>ENVIRONMENT := STAGING\<rparr>) 5 weather_question ''S1'' (Some ''u1'')
        initial_world
     = Some (Inl (ServiceError ''unreachable''),
             log_event ERROR ''graph_creation_failed''
               (log_event ERROR ''mongodb_checkpointer_creation_failed'' initial_world))"
    by blast
  ultimately show ?thesis using pr c0 by simp
qed


subsection \<open>Events of the runtime\<close>

lemma tokens_of_append [simp]: "tokens_of (xs @ ys) = tokens_of xs @ tokens_of ys"
  by (induction xs rule: tokens_of.induct) simp_all

lemma tasks_of_append [simp]: "tasks_of (xs @ ys) = tasks_of xs @ tasks_of ys"
  by (induction xs rule: tasks_of.induct) simp_all

lemma tokens_of_Yielded [simp]: "tokens_of (map (\<lambda>m. Yielded (f m)) ms) = map f ms"
  by (induction ms) simp_all

lemma tasks_of_Yielded [simp]: "tasks_of (map (\<lambda>m. Yielded (f m)) ms) = []"
  by (induction ms) simp_all

lemma logs_no_tokens: "list_all is_log evs \<Longrightarrow> tokens_of evs = [] \<and> tasks_of evs = []"
proof (induction evs)
  case Nil
  then show ?case by simp
next
  case (Cons e evs)
  then show ?case by (cases e) simp_all
qed

lemma put_checkpoint_frame [simp]:
  "graph (put_checkpoint g t st w) = graph w"
  "checkpointer (put_checkpoint g t st w) = checkpointer w"
  "memory (put_checkpoint g t st w) = memory w"
  "checkpoint_writes (put_checkpoint g t st w) = checkpoint_writes w"
  by (simp_all add: put_checkpoint_def split: option.splits)

lemma put_writes_frame [simp]:
  "graph (put_writes g t ms w) = graph w"
  "checkpointer (put_writes g t ms w) = checkpointer w"
  "memory (put_writes g t ms w) = memory w"
  "checkpoints (put_writes g t ms w) = checkpoints w"
  "trace (put_writes g t ms w) = trace w"
  by (simp_all add: put_writes_def split: option.splits)

lemma put_checkpoint_some:
  "checkpointer_of g = Some cp \<Longrightarrow>
     checkpoints (put_checkpoint g t st w) = checkpoints w @ [(t, st)]
     \<and> trace (put_checkpoint g t st w) = trace w @ [CheckpointPut t st]"
  by (simp add: put_checkpoint_def)

lemma latest_last:
  "latest w t = (if filter (\<lambda>r. fst r = t) (checkpoints w) = [] then None
                 else Some (snd (last (filter (\<lambda>r. fst r = t) (checkpoints w)))))"
  by (simp add: latest_def split: list.splits)

lemma latest_snoc [simp]:
  "checkpoints w' = checkpoints w @ [(t, st)] \<Longrightarrow> latest w' t = Some st"
  by (simp add: latest_last)

lemma record_steps_frame [simp]:
  "graph (record_steps g t s st cmds w) = graph w"
  "checkpointer (record_steps g t s st cmds w) = checkpointer w"
  "memory (record_steps g t s st cmds w) = memory w"
  by (induction cmds arbitrary: st w) (simp_all add: Let_def)

text \<open>With a checkpointer: the events of the steps, the last of them the final snapshot.\<close>

lemma record_steps_some:
  assumes "checkpointer_of g = Some cp"
  shows "\<exists>evs. trace (record_steps g t s st cmds w) = trace w @ evs
           \<and> tasks_of evs = []
           \<and> tokens_of evs = (if s then map content_of (concat (map update cmds)) else [])
           \<and> (cmds \<noteq> [] \<longrightarrow> evs \<noteq> [] \<and> last evs = CheckpointPut t (foldl apply_command st cmds)
                          \<and> latest (record_steps g t s st cmds w) t
                              = Some (foldl apply_command st cmds))
           \<and> (cmds = [] \<longrightarrow> evs = [])"
proof (induction cmds arbitrary: st w)
  case Nil
  then show ?case by simp
next
  case (Cons cmd cmds)
  let ?st = "apply_command st cmd"
  let ?w1 = "if s then emit (map (\<lambda>m. Yielded (content_of m)) (update cmd)) w else w"
  let ?w2 = "put_checkpoint g t ?st (put_writes g t (update cmd) ?w1)"
  have rs: "record_steps g t s st (cmd # cmds) w = record_steps g t s ?st cmds ?w2"
    by (simp add: Let_def)
  have tr2: "trace ?w2 = trace w @ (if s then map (\<lambda>m. Yielded (content_of m)) (update cmd) else [])
                          @ [CheckpointPut t ?st]"
    using put_checkpoint_some[OF assms] by (simp add: emit_def)
  have cp2: "checkpoints ?w2 = checkpoints (put_writes g t (update cmd) ?w1) @ [(t, ?st)]"
    using put_checkpoint_some[OF assms] by simp
  from Cons.IH[of ?st ?w2] obtain evs where
    evs: "trace (record_steps g t s ?st cmds ?w2) = trace ?w2 @ evs"
      "tasks_of evs = []"
      "tokens_of evs = (if s then map content_of (concat (map update cmds)) else [])"
      "cmds \<noteq> [] \<longrightarrow> evs \<noteq> [] \<and> last evs = CheckpointPut t (foldl apply_command ?st cmds)
          \<and> latest (record_steps g t s ?st cmds ?w2) t = Some (foldl apply_command ?st cmds)"
      "cmds = [] \<longrightarrow> evs = []"
    by blast
  let ?evs = "(if s then map (\<lambda>m. Yielded (content_of m)) (update cmd) else [])
                @ [CheckpointPut t ?st] @ evs"
  have a: "trace (record_steps g t s st (cmd # cmds) w) = trace w @ ?evs"
    unfolding rs evs(1) tr2 by simp
  have b: "tasks_of ?evs = []" using evs(2) by simp
  have c: "tokens_of ?evs = (if s then map content_of (concat (map update (cmd # cmds))) else [])"
    using evs(3) by simp
  have d: "?evs \<noteq> [] \<and> last ?evs = CheckpointPut t (foldl apply_command st (cmd # cmds))
           \<and> latest (record_steps g t s st (cmd # cmds) w) t
                = Some (foldl apply_command st (cmd # cmds))"
  proof (cases "cmds = []")
    case True
    with evs(5) cp2 show ?thesis by (simp add: Let_def)
  next
    case False
    with evs(4) show ?thesis unfolding rs by simp
  qed
  from a b c d show ?case by blast
qed

text \<open>Without a checkpointer nothing is committed; the tokens are still handed over.\<close>

lemma record_steps_tokens:
  "\<exists>evs. trace (record_steps g t s st cmds w) = trace w @ evs
         \<and> tasks_of evs = []
         \<and> tokens_of evs = (if s then map content_of (concat (map update cmds)) else [])"
proof (cases "checkpointer_of g")
  case (Some cp)
  from record_steps_some[OF this, of t s st cmds w] show ?thesis by blast
next
  case None
  have "trace (record_steps g t s st cmds w)
          = trace w @ (if s then map (\<lambda>m. Yielded (content_of m)) (concat (map update cmds)) else [])"
    using None by (induction cmds arbitrary: st w) (simp_all add: Let_def emit_def)
  then show ?thesis by (intro exI[of _ "if s then map (\<lambda>m. Yielded (content_of m)) (concat (map update cmds)) else []"]) simp
qed

subsection \<open>Events before the graph runs\<close>

lemma get_checkpointer_logs:
  "get_checkpointer env w = (r, w1) \<Longrightarrow> \<exists>evs. trace w1 = trace w @ evs \<and> list_all is_log evs"
  by (auto simp: get_checkpointer_def Let_def split: if_splits option.splits)

lemma create_graph_logs:
  assumes "create_graph env w = (r, w1)"
  shows "\<exists>evs. trace w1 = trace w @ evs \<and> list_all is_log evs"
proof (cases "graph w = None")
  case False
  with assms show ?thesis by (simp add: create_graph_def)
next
  case True
  obtain r0 w0 where gc: "get_checkpointer env w = (r0, w0)"
    by (cases "get_checkpointer env w")
  from get_checkpointer_logs[OF gc] obtain evs0 where
    e0: "trace w0 = trace w @ evs0" "list_all is_log evs0" by blast
  from assms True gc have "\<exists>evs. trace w1 = trace w0 @ evs \<and> list_all is_log evs"
    by (auto simp: create_graph_def create_graph_except_def Let_def split: sum.splits if_splits)
  then obtain evs where "trace w1 = trace w0 @ evs" "list_all is_log evs" by blast
  with e0 show ?thesis by (intro exI[of _ "evs0 @ evs"]) simp
qed

lemma ensure_graph_logs:
  assumes "ensure_graph env w = (r, w1)"
  shows "\<exists>evs. trace w1 = trace w @ evs \<and> list_all is_log evs"
proof (cases "graph w = None")
  case False
  with assms show ?thesis by (simp add: ensure_graph_def)
next
  case True
  obtain r0 w0 where cg: "create_graph env w = (r0, w0)"
    by (cases "create_graph env w")
  from assms True cg have "trace w1 = trace w0"
    by (auto simp: ensure_graph_def split: sum.splits)
  with create_graph_logs[OF cg] show ?thesis by simp
qed

lemma get_relevant_memory_logs:
  assumes "get_relevant_memory env uid q w = (found, w1)"
  shows "\<exists>evs. trace w1 = trace w @ evs \<and> list_all is_log evs"
proof -
  obtain r0 w0 where t: "relevant_memory_try env uid q w = (r0, w0)"
    by (cases "relevant_memory_try env uid q w")
  from relevant_memory_try_frame[OF t] have "trace w0 = trace w" by simp
  with assms t show ?thesis
    by (auto simp: get_relevant_memory_def split: sum.splits)
qed

lemma ensure_graph_Inr:
  "ensure_graph env w = (Inr u, w1) \<Longrightarrow> graph w \<noteq> None \<Longrightarrow> w1 = w"
  by (simp add: ensure_graph_def)

subsection \<open>What a successful call went through\<close>

lemma get_response_Inr:
  assumes "get_response env fuel msgs sid uid w = Some (Inr reply, w')"
  shows "\<exists>w1 g found w2 new final cmds st0.
           ensure_graph env w = (Inr (), w1) \<and> graph w1 = Some g \<and> msgs \<noteq> []
         \<and> get_relevant_memory env uid (content (last msgs)) w1 = (found, w2)
         \<and> coerce_messages msgs = Inr new
         \<and> st0 = \<lparr>messages = prior_messages g sid w @ new,
                   long_term_memory = (if found \<noteq> [] then found else ''No relevant memory found.'')\<rparr>
         \<and> run_graph env fuel Chat st0 = Some (Inr final, cmds)
         \<and> reply = process_messages env (messages final)
         \<and> w' = schedule_memory_update env uid sid (messages final)
                  (record_steps g sid False st0 cmds (put_checkpoint g sid st0 w2))"
proof -
  obtain r1 w1 where eg0: "ensure_graph env w = (r1, w1)" by (cases "ensure_graph env w")
  with assms have eg: "ensure_graph env w = (Inr (), w1)"
    by (cases r1) (simp_all add: get_response_def)
  from assms eg have ne: "msgs \<noteq> []"
    by (auto simp: get_response_def split: if_splits)
  obtain found w2 where rm: "get_relevant_memory env uid (content (last msgs)) w1 = (found, w2)"
    by (cases "get_relevant_memory env uid (content (last msgs)) w1")
  let ?ltm = "if found \<noteq> [] then found else ''No relevant memory found.''"
  from get_relevant_memory_frame[OF rm] have g2: "graph w2 = graph w1"
    and c2: "checkpoints w2 = checkpoints w1" by simp_all
  from assms eg ne rm obtain g where g: "graph w2 = Some g"
    by (cases "graph w2") (auto simp: get_response_def Let_def log_event_def emit_def)
  from assms eg ne rm g obtain response w3 where
    ai: "ainvoke env g sid fuel (dump_messages msgs) ?ltm w2 = Some (Inr response, w3)"
    and reply: "reply = process_messages env (messages response)"
    and w': "w' = schedule_memory_update env uid sid (messages response) w3"
    by (auto simp: get_response_def Let_def split: option.splits sum.splits prod.splits)
  from ensure_graph_frame[OF eg] c2 have "checkpoints w2 = checkpoints w" by simp
  then have pm: "prior_messages g sid w2 = prior_messages g sid w" by (rule prior_messages_cong)
  from ai obtain new cmds where co: "coerce_messages msgs = Inr new"
    and run: "run_graph env fuel Chat \<lparr>messages = prior_messages g sid w @ new, long_term_memory = ?ltm\<rparr>
                = Some (Inr response, cmds)"
    and w3: "w3 = record_steps g sid False \<lparr>messages = prior_messages g sid w @ new, long_term_memory = ?ltm\<rparr> cmds
                   (put_checkpoint g sid \<lparr>messages = prior_messages g sid w @ new, long_term_memory = ?ltm\<rparr> w2)"
    unfolding ainvoke_def invoke_graph_def dump_messages_def pm
    by (auto simp: Let_def split: sum.splits option.splits prod.splits)
  from eg g g2 ne rm co run reply w' w3 show ?thesis by auto
qed

lemma get_stream_response_ok:
  assumes "get_stream_response env fuel msgs sid uid w = Some ((tokens, None), w')"
  shows "\<exists>w1 g cp found w2 new final cmds st0.
           ensure_graph env w = (Inr (), w1) \<and> graph w1 = Some g \<and> checkpointer_of g = Some cp
         \<and> msgs \<noteq> []
         \<and> get_relevant_memory env uid (content (last msgs)) w1 = (found, w2)
         \<and> coerce_messages msgs = Inr new
         \<and> st0 = \<lparr>messages = prior_messages g sid w @ new,
                   long_term_memory = (if found \<noteq> [] then found else ''No relevant memory found.'')\<rparr>
         \<and> run_graph env fuel Chat st0 = Some (Inr final, cmds)
         \<and> tokens = map content_of (concat (map update cmds))
         \<and> w' = schedule_memory_update env uid sid (messages final)
                  (record_steps g sid True st0 cmds (put_checkpoint g sid st0 w2))"
proof -
  obtain r1 w1 where eg0: "ensure_graph env w = (r1, w1)" by (cases "ensure_graph env w")
  with assms have eg: "ensure_graph env w = (Inr (), w1)"
    by (cases r1) (simp_all add: get_stream_response_def)
  from assms eg have ne: "msgs \<noteq> []"
    by (auto simp: get_stream_response_def split: if_splits)
  obtain found w2 where rm: "get_relevant_memory env uid (content (last msgs)) w1 = (found, w2)"
    by (cases "get_relevant_memory env uid (content (last msgs)) w1")
  let ?ltm = "if found \<noteq> [] then found else ''No relevant memory found.''"
  from get_relevant_memory_frame[OF rm] have g2: "graph w2 = graph w1"
    and c2: "checkpoints w2 = checkpoints w1" by simp_all
  from assms eg ne rm obtain g where g: "graph w2 = Some g"
    by (cases "graph w2") (auto simp: get_stream_response_def Let_def stream_except_def)
  from assms eg ne rm g obtain final out w3 where
    ai: "astream env g sid fuel (dump_messages msgs) ?ltm w2 = Some (Inr final, out, w3)"
    by (auto simp: get_stream_response_def Let_def stream_except_def
             split: option.splits sum.splits prod.splits)
  from assms eg ne rm g ai obtain cp where cp: "checkpointer_of g = Some cp"
    by (cases "checkpointer_of g")
       (auto simp: get_stream_response_def Let_def stream_except_def get_state_def)
  from ensure_graph_frame[OF eg] c2 have "checkpoints w2 = checkpoints w" by simp
  then have pm: "prior_messages g sid w2 = prior_messages g sid w" by (rule prior_messages_cong)
  let ?st0 = "\<lambda>new. \<lparr>messages = prior_messages g sid w @ new, long_term_memory = ?ltm\<rparr>"
  from ai obtain new cmds where co: "coerce_messages msgs = Inr new"
    and run: "run_graph env fuel Chat (?st0 new) = Some (Inr final, cmds)"
    and out: "out = concat (map update cmds)"
    and w3: "w3 = record_steps g sid True (?st0 new) cmds (put_checkpoint g sid (?st0 new) w2)"
    unfolding astream_def invoke_graph_def dump_messages_def pm
    by (auto simp: Let_def split: sum.splits option.splits prod.splits)
  have fin: "final = foldl apply_command (?st0 new) cmds" by (rule run_graph_final[OF run])
  have lat: "latest w3 sid = Some final"
  proof (cases "cmds = []")
    case True
    with fin w3 put_checkpoint_some[OF cp, of sid "?st0 new" w2] show ?thesis by simp
  next
    case False
    with record_steps_some[OF cp, of sid True "?st0 new" cmds "put_checkpoint g sid (?st0 new) w2"]
      fin w3 show ?thesis by auto
  qed
  from assms eg ne rm g ai cp lat out
  have "tokens = map content_of (concat (map update cmds))"
    and "w' = schedule_memory_update env uid sid (messages final) w3"
    by (auto simp: get_stream_response_def Let_def get_state_def)
  with eg g g2 cp ne rm co run w3 show ?thesis by auto
qed

subsection \<open>When the memory update is scheduled\<close>

lemma latest_schedule [simp]:
  "latest (schedule_memory_update env uid sid ms w) t = latest w t"
  by (simp add: schedule_memory_update_def latest_def)

lemma turn_events:
  assumes eg: "ensure_graph env w = (Inr (), w1)"
    and rm: "get_relevant_memory env uid q w1 = (found, w2)"
    and run: "run_graph env fuel Chat st0 = Some (Inr final, cmds)"
  shows "\<exists>evs. trace (record_steps g sid s st0 cmds (put_checkpoint g sid st0 w2)) = trace w @ evs
           \<and> tasks_of evs = []
           \<and> tokens_of evs = (if s then map content_of (concat (map update cmds)) else [])
           \<and> (checkpointer_of g \<noteq> None \<longrightarrow>
                 evs \<noteq> [] \<and> last evs = CheckpointPut sid final
               \<and> latest (record_steps g sid s st0 cmds (put_checkpoint g sid st0 w2)) sid = Some final)"
proof -
  from ensure_graph_logs[OF eg] obtain e1 where e1: "trace w1 = trace w @ e1" "list_all is_log e1"
    by blast
  from get_relevant_memory_logs[OF rm] obtain e2 where e2: "trace w2 = trace w1 @ e2" "list_all is_log e2"
    by blast
  have fin: "final = foldl apply_command st0 cmds" by (rule run_graph_final[OF run])
  let ?w3 = "put_checkpoint g sid st0 w2"
  let ?w4 = "record_steps g sid s st0 cmds ?w3"
  show ?thesis
  proof (cases "checkpointer_of g")
    case None
    from record_steps_tokens[of g sid s st0 cmds ?w3] obtain e4 where
      e4: "trace ?w4 = trace ?w3 @ e4" "tasks_of e4 = []"
          "tokens_of e4 = (if s then map content_of (concat (map update cmds)) else [])"
      by blast
    have "trace ?w4 = trace w @ (e1 @ e2 @ e4)"
      using e1 e2 e4 None by simp
    moreover have "tasks_of (e1 @ e2 @ e4) = []"
      using logs_no_tokens[OF e1(2)] logs_no_tokens[OF e2(2)] e4 by simp
    moreover have "tokens_of (e1 @ e2 @ e4) = (if s then map content_of (concat (map update cmds)) else [])"
      using logs_no_tokens[OF e1(2)] logs_no_tokens[OF e2(2)] e4 by simp
    ultimately show ?thesis using None by blast
  next
    case (Some cp)
    from record_steps_some[OF Some, of sid s st0 cmds ?w3] obtain e4 where
      e4: "trace ?w4 = trace ?w3 @ e4" "tasks_of e4 = []"
          "tokens_of e4 = (if s then map content_of (concat (map update cmds)) else [])"
          "cmds \<noteq> [] \<longrightarrow> e4 \<noteq> [] \<and> last e4 = CheckpointPut sid (foldl apply_command st0 cmds)
              \<and> latest ?w4 sid = Some (foldl apply_command st0 cmds)"
          "cmds = [] \<longrightarrow> e4 = []"
      by blast
    let ?evs = "e1 @ e2 @ [CheckpointPut sid st0] @ e4"
    have a: "trace ?w4 = trace w @ ?evs"
      using e1 e2 e4(1) put_checkpoint_some[OF Some, of sid st0 w2] by simp
    have b: "tasks_of ?evs = []"
      using logs_no_tokens[OF e1(2)] logs_no_tokens[OF e2(2)] e4(2) by simp
    have c: "tokens_of ?evs = (if s then map content_of (concat (map update cmds)) else [])"
      using logs_no_tokens[OF e1(2)] logs_no_tokens[OF e2(2)] e4(3) by simp
    have d: "?evs \<noteq> [] \<and> last ?evs = CheckpointPut sid final \<and> latest ?w4 sid = Some final"
    proof (cases "cmds = []")
      case True
      with e4(5) fin put_checkpoint_some[OF Some, of sid st0 w2] show ?thesis by simp
    next
      case False
      with e4(4) fin show ?thesis by simp
    qed
    from a b c d show ?thesis by blast
  qed
qed

text \<open>
  C7. Whenever \<^verbatim>\<open>get_response\<close> returns a reply, and whenever the stream of
  \<^verbatim>\<open>get_stream_response\<close> ends without exception, the events of the call end with the
  creation of one memory-update task and hold no other; the task carries the messages
  of the final state of the graph run that started from the session's earlier messages
  and the submitted ones. With a checkpointer the event right before the task is the
  commit of that final state, which is then the latest snapshot of the session; in the
  streaming path (which needs the checkpointer to read the state back) every token was
  handed over before.
\<close>

theorem memory_update_scheduled_after_final_state:
  "(\<forall>reply w'. get_response env fuel msgs sid uid w = Some (Inr reply, w') \<longrightarrow>
      (\<exists>g evs final new st0 cmds.
          graph w' = Some g
        \<and> coerce_messages msgs = Inr new
        \<and> messages st0 = prior_messages g sid w @ new
        \<and> run_graph env fuel Chat st0 = Some (Inr final, cmds)
        \<and> reply = process_messages env (messages final)
        \<and> trace w' = trace w @ evs @
            [TaskCreated (UpdateLongTermMemory uid (convert_to_openai_messages (messages final))
               (Metadata uid sid (ENVIRONMENT env) (DEBUG env)))]
        \<and> tasks_of evs = []
        \<and> (checkpointer_of g \<noteq> None \<longrightarrow>
              evs \<noteq> [] \<and> last evs = CheckpointPut sid final \<and> latest w' sid = Some final)))
   \<and> (\<forall>tokens w'. get_stream_response env fuel msgs sid uid w = Some ((tokens, None), w') \<longrightarrow>
      (\<exists>g evs final new st0 cmds.
          graph w' = Some g
        \<and> coerce_messages msgs = Inr new
        \<and> messages st0 = prior_messages g sid w @ new
        \<and> run_graph env fuel Chat st0 = Some (Inr final, cmds)
        \<and> trace w' = trace w @ evs @
            [TaskCreated (UpdateLongTermMemory uid (convert_to_openai_messages (messages final))
               (Metadata uid sid (ENVIRONMENT env) (DEBUG env)))]
        \<and> tasks_of evs = []
        \<and> tokens_of evs = tokens
        \<and> evs \<noteq> [] \<and> last evs = CheckpointPut sid final \<and> latest w' sid = Some final))"
proof (intro conjI allI impI)
  fix reply w'
  assume "get_response env fuel msgs sid uid w = Some (Inr reply, w')"
  from get_response_Inr[OF this] obtain w1 g found w2 new final cmds st0 where
    eg: "ensure_graph env w = (Inr (), w1)" and g: "graph w1 = Some g"
    and rm: "get_relevant_memory env uid (content (last msgs)) w1 = (found, w2)"
    and co: "coerce_messages msgs = Inr new"
    and st0: "st0 = \<lparr>messages = prior_messages g sid w @ new,
                   long_term_memory = (if found \<noteq> [] then found else ''No relevant memory found.'')\<rparr>"
    and run: "run_graph env fuel Chat st0 = Some (Inr final, cmds)"
    and reply: "reply = process_messages env (messages final)"
    and w': "w' = schedule_memory_update env uid sid (messages final)
                  (record_steps g sid False st0 cmds (put_checkpoint g sid st0 w2))"
    by blast
  from get_relevant_memory_frame[OF rm] g have g2: "graph w2 = Some g" by simp
  from turn_events[OF eg rm run, of g sid False] obtain evs where
    evs: "trace (record_steps g sid False st0 cmds (put_checkpoint g sid st0 w2)) = trace w @ evs"
         "tasks_of evs = []"
         "checkpointer_of g \<noteq> None \<longrightarrow> evs \<noteq> [] \<and> last evs = CheckpointPut sid final
            \<and> latest (record_steps g sid False st0 cmds (put_checkpoint g sid st0 w2)) sid = Some final"
    by blast
  have "graph w' = Some g" using w' g2 by (simp add: schedule_memory_update_def)
  moreover have "trace w' = trace w @ evs @
            [TaskCreated (UpdateLongTermMemory uid (convert_to_openai_messages (messages final))
               (Metadata uid sid (ENVIRONMENT env) (DEBUG env)))]"
    using w' evs(1) by (simp add: schedule_memory_update_def)
  moreover have "checkpointer_of g \<noteq> None \<longrightarrow>
              evs \<noteq> [] \<and> last evs = CheckpointPut sid final \<and> latest w' sid = Some final"
    using evs(3) w' by simp
  ultimately show "\<exists>g evs final new st0 cmds.
          graph w' = Some g
        \<and> coerce_messages msgs = Inr new
        \<and> messages st0 = prior_messages g sid w @ new
        \<and> run_graph env fuel Chat st0 = Some (Inr final, cmds)
        \<and> reply = process_messages env (messages final)
        \<and> trace w' = trace w @ evs @
            [TaskCreated (UpdateLongTermMemory uid (convert_to_openai_messages (messages final))
               (Metadata uid sid (ENVIRONMENT env) (DEBUG env)))]
        \<and> tasks_of evs = []
        \<and> (checkpointer_of g \<noteq> None \<longrightarrow>
              evs \<noteq> [] \<and> last evs = CheckpointPut sid final \<and> latest w' sid = Some final)"
    using run reply evs(2) co st0
    by (intro exI[of _ g] exI[of _ evs] exI[of _ final] exI[of _ new] exI[of _ st0] exI[of _ cmds])
       simp
next
  fix tokens w'
  assume "get_stream_response env fuel msgs sid uid w = Some ((tokens, None), w')"
  from get_stream_response_ok[OF this] obtain w1 g cp found w2 new final cmds st0 where
    eg: "ensure_graph env w = (Inr (), w1)" and g: "graph w1 = Some g"
    and cp: "checkpointer_of g = Some cp"
    and rm: "get_relevant_memory env uid (content (last msgs)) w1 = (found, w2)"
    and co: "coerce_messages msgs = Inr new"
    and st0: "st0 = \<lparr>messages = prior_messages g sid w @ new,
                   long_term_memory = (if found \<noteq> [] then found else ''No relevant memory found.'')\<rparr>"
    and run: "run_graph env fuel Chat st0 = Some (Inr final, cmds)"
    and tokens: "tokens = map content_of (concat (map update cmds))"
    and w': "w' = schedule_memory_update env uid sid (messages final)
                  (record_steps g sid True st0 cmds (put_checkpoint g sid st0 w2))"
    by blast
  from turn_events[OF eg rm run, of g sid True] cp obtain evs where
    evs: "trace (record_steps g sid True st0 cmds (put_checkpoint g sid st0 w2)) = trace w @ evs"
         "tasks_of evs = []"
         "tokens_of evs = map content_of (concat (map update cmds))"
         "evs \<noteq> []" "last evs = CheckpointPut sid final"
         "latest (record_steps g sid True st0 cmds (put_checkpoint g sid st0 w2)) sid = Some final"
    by auto
  from get_relevant_memory_frame[OF rm] g have g2: "graph w2 = Some g" by simp
  have "trace w' = trace w @ evs @
            [TaskCreated (UpdateLongTermMemory uid (convert_to_openai_messages (messages final))
               (Metadata uid sid (ENVIRONMENT env) (DEBUG env)))]"
    using w' evs(1) by (simp add: schedule_memory_update_def)
  moreover have "latest w' sid = Some final"
    using evs(6) w' by simp
  moreover have "graph w' = Some g" using w' g2 by (simp add: schedule_memory_update_def)
  ultimately show "\<exists>g evs final new st0 cmds.
          graph w' = Some g
        \<and> coerce_messages msgs = Inr new
        \<and> messages st0 = prior_messages g sid w @ new
        \<and> run_graph env fuel Chat st0 = Some (Inr final, cmds)
        \<and> trace w' = trace w @ evs @
            [TaskCreated (UpdateLongTermMemory uid (convert_to_openai_messages (messages final))
               (Metadata uid sid (ENVIRONMENT env) (DEBUG env)))]
        \<and> tasks_of evs = []
        \<and> tokens_of evs = tokens
        \<and> evs \<noteq> [] \<and> last evs = CheckpointPut sid final \<and> latest w' sid = Some final"
    using run evs(2,3,4,5) tokens co st0
    by (intro exI[of _ g] exI[of _ evs] exI[of _ final] exI[of _ new] exI[of _ st0] exI[of _ cmds])
       simp
qed



theorem memory_update_scheduled_after_final_state_witness:
  "last (trace (snd (the (get_response weather_env 5 weather_question ''S1'' (Some ''u1'') initial_world))))
     = TaskCreated (UpdateLongTermMemory (Some ''u1'')
         (convert_to_openai_messages (messages weather_final))
         (Metadata (Some ''u1'') ''S1'' DEVELOPMENT False))
   \<and> last (butlast (trace (snd (the (get_response weather_env 5 weather_question ''S1'' (Some ''u1'')
        initial_world))))) = CheckpointPut ''S1'' weather_final
   \<and> last (trace (snd (the (get_stream_response weather_env 5 weather_question ''S1'' (Some ''u1'')
        initial_world))))
     = TaskCreated (UpdateLongTermMemory (Some ''u1'')
         (convert_to_openai_messages (messages weather_final))
         (Metadata (Some ''u1'') ''S1'' DEVELOPMENT False))
   \<and> last (butlast (trace (snd (the (get_stream_response weather_env 5 weather_question ''S1''
        (Some ''u1'') initial_world))))) = CheckpointPut ''S1'' weather_final"
proof -
  let ?r = "get_response weather_env 5 weather_question ''S1'' (Some ''u1'') initial_world"
  let ?s = "get_stream_response weather_env 5 weather_question ''S1'' (Some ''u1'') initial_world"
  let ?task = "TaskCreated (UpdateLongTermMemory (Some ''u1'')
         (convert_to_openai_messages (messages weather_final))
         (Metadata (Some ''u1'') ''S1'' DEVELOPMENT False))"
  have env: "ENVIRONMENT weather_env = DEVELOPMENT" "DEBUG weather_env = False"
    by (simp_all add: weather_env_def)
  have r1: "?r = Some (Inr (process_messages weather_env (messages weather_final)), snd (the ?r))"
    by code_simp
  have r2: "latest (snd (the ?r)) ''S1'' = Some weather_final" by code_simp
  have r3: "graph (snd (the ?r)) = Some (CompiledStateGraph (Some MongoDBSaver))" by code_simp
  have s1: "?s = Some ((tokens_of (trace (snd (the ?s))), None), snd (the ?s))" by code_simp
  have s2: "latest (snd (the ?s)) ''S1'' = Some weather_final" by code_simp
  note inst = memory_update_scheduled_after_final_state[of weather_env 5 weather_question "''S1''"
         "Some ''u1''" initial_world]
  from inst have "\<forall>reply w'. ?r = Some (Inr reply, w') \<longrightarrow>
      (\<exists>g evs final new st0 cmds.
          graph w' = Some g
        \<and> coerce_messages weather_question = Inr new
        \<and> messages st0 = prior_messages g ''S1'' initial_world @ new
        \<and> run_graph weather_env 5 Chat st0 = Some (Inr final, cmds)
        \<and> reply = process_messages weather_env (messages final)
        \<and> trace w' = trace initial_world @ evs @
            [TaskCreated (UpdateLongTermMemory (Some ''u1'') (convert_to_openai_messages (messages final))
               (Metadata (Some ''u1'') ''S1'' (ENVIRONMENT weather_env) (DEBUG weather_env)))]
        \<and> tasks_of evs = []
        \<and> (checkpointer_of g \<noteq> None \<longrightarrow>
              evs \<noteq> [] \<and> last evs = CheckpointPut ''S1'' final \<and> latest w' ''S1'' = Some final))"
    by (rule conjunct1)
  from this[rule_format, OF r1] obtain g evs final where
    g: "graph (snd (the ?r)) = Some g"
    and tr: "trace (snd (the ?r)) = trace initial_world @ evs @
            [TaskCreated (UpdateLongTermMemory (Some ''u1'') (convert_to_openai_messages (messages final))
               (Metadata (Some ''u1'') ''S1'' (ENVIRONMENT weather_env) (DEBUG weather_env)))]"
    and cp: "checkpointer_of g \<noteq> None \<longrightarrow>
              evs \<noteq> [] \<and> last evs = CheckpointPut ''S1'' final
              \<and> latest (snd (the ?r)) ''S1'' = Some final"
    by blast
  from g r3 have "checkpointer_of g \<noteq> None" by auto
  with cp r2 have "evs \<noteq> []" "last evs = CheckpointPut ''S1'' weather_final" "final = weather_final"
    by auto
  with tr env have a: "last (trace (snd (the ?r))) = ?task
     \<and> last (butlast (trace (snd (the ?r)))) = CheckpointPut ''S1'' weather_final"
    by (simp add: butlast_append)
  from inst have "\<forall>tokens w'. ?s = Some ((tokens, None), w') \<longrightarrow>
      (\<exists>g evs final new st0 cmds.
          graph w' = Some g
        \<and> coerce_messages weather_question = Inr new
        \<and> messages st0 = prior_messages g ''S1'' initial_world @ new
        \<and> run_graph weather_env 5 Chat st0 = Some (Inr final, cmds)
        \<and> trace w' = trace initial_world @ evs @
            [TaskCreated (UpdateLongTermMemory (Some ''u1'') (convert_to_openai_messages (messages final))
               (Metadata (Some ''u1'') ''S1'' (ENVIRONMENT weather_env) (DEBUG weather_env)))]
        \<and> tasks_of evs = []
        \<and> tokens_of evs = tokens
        \<and> evs \<noteq> [] \<and> last evs = CheckpointPut ''S1'' final \<and> latest w' ''S1'' = Some final)"
    by (rule conjunct2)
  from this[rule_format, OF s1] obtain evs' final' where
    tr': "trace (snd (the ?s)) = trace initial_world @ evs' @
            [TaskCreated (UpdateLongTermMemory (Some ''u1'') (convert_to_openai_messages (messages final'))
               (Metadata (Some ''u1'') ''S1'' (ENVIRONMENT weather_env) (DEBUG weather_env)))]"
    and ne': "evs' \<noteq> []" and la': "last evs' = CheckpointPut ''S1'' final'"
    and lt': "latest (snd (the ?s)) ''S1'' = Some final'"
    by blast
  from lt' s2 have "final' = weather_final" by simp
  with tr' ne' la' env have b: "last (trace (snd (the ?s))) = ?task
     \<and> last (butlast (trace (snd (the ?s)))) = CheckpointPut ''S1'' weather_final"
    by (simp add: butlast_append)
  from a b show ?thesis by blast
qed


subsection \<open>What the nodes produce\<close>

lemma chat_Inr:
  assumes "chat env st = Inr cmd"
  shows "\<exists>c tcs. update cmd = [AIMessage c tcs] \<and> (goto cmd = END \<longleftrightarrow> tcs = [])"
proof -
  let ?p = "prepare_messages env (messages st) (load_system_prompt env (long_term_memory st))"
  from assms have t: "chat_try env ?p = Inr cmd"
    by (auto simp: chat_def Let_def split: sum.splits)
  then obtain response where r: "llm_call env (dump_messages ?p) = Inr response"
    by (auto simp: chat_try_def split: sum.splits)
  from t r obtain tcs where tc: "tool_calls_of (process_llm_response env response) = Inr tcs"
    and cmd: "cmd = Command [process_llm_response env response] (if tcs \<noteq> [] then Tool_call else END)"
    by (auto simp: chat_try_def Let_def split: sum.splits)
  from tc obtain c where "process_llm_response env response = AIMessage c tcs"
    by (cases "process_llm_response env response") simp_all
  with cmd show ?thesis by simp
qed

lemma tool_outputs_roles:
  "tool_outputs env tcs acc = Inr outs \<Longrightarrow> list_all (\<lambda>m. openai_role m = Tool) acc \<Longrightarrow>
     list_all (\<lambda>m. openai_role m = Tool) outs"
proof (induction tcs arbitrary: acc)
  case Nil
  then show ?case by simp
next
  case (Cons tc tcs)
  from Cons.prems(1) obtain t r where
    "tool_outputs env tcs (acc @ [ToolMessage r (tc_name tc) (tc_id tc)]) = Inr outs"
    by (auto split: option.splits sum.splits)
  from Cons.IH[OF this] Cons.prems(2) show ?case by simp
qed

lemma tool_call_Inr:
  assumes "tool_call env st = Inr cmd"
  shows "goto cmd = Chat \<and> list_all (\<lambda>m. openai_role m = Tool) (update cmd)"
proof -
  from assms obtain tcs outs where o: "tool_outputs env tcs [] = Inr outs" and c: "cmd = Command outs Chat"
    by (auto simp: tool_call_def split: if_splits sum.splits)
  from tool_outputs_roles[OF o] c show ?thesis by simp
qed

lemma run_node_Inr:
  assumes "run_node env n st = Inr cmd" and "n \<noteq> END"
  shows "list_all (\<lambda>m. openai_role m = Assistant \<or> openai_role m = Tool) (update cmd)
       \<and> (goto cmd = END \<longrightarrow> (\<exists>c. cmd = Command [AIMessage c []] END))"
proof (cases n)
  case Chat
  with assms have "chat env st = Inr cmd" by (simp add: run_node_def)
  from chat_Inr[OF this] obtain c tcs where
    "update cmd = [AIMessage c tcs]" "goto cmd = END \<longleftrightarrow> tcs = []" by blast
  then show ?thesis by (cases cmd) auto
next
  case Tool_call
  with assms have "tool_call env st = Inr cmd" by (simp add: run_node_def)
  from tool_call_Inr[OF this] show ?thesis by (auto simp: list_all_iff)
next
  case END
  with assms show ?thesis by simp
qed

lemma run_graph_Suc:
  "n \<noteq> END \<Longrightarrow> run_graph env (Suc fuel) n st =
       (case run_node env n st of
          Inl e \<Rightarrow> Some (Inl e, [])
        | Inr cmd \<Rightarrow>
            (case run_graph env fuel (goto cmd) (apply_command st cmd) of
               None \<Rightarrow> None
             | Some (r, cmds) \<Rightarrow> Some (r, cmd # cmds)))"
  by (cases n) simp_all

lemma run_graph_generated:
  "run_graph env fuel n st = Some (r, cmds) \<Longrightarrow>
     list_all (\<lambda>m. openai_role m = Assistant \<or> openai_role m = Tool) (concat (map update cmds))"
proof (induction fuel arbitrary: n st cmds)
  case 0
  then show ?case by (cases n) simp_all
next
  case (Suc fuel)
  show ?case
  proof (cases "n = END")
    case True
    with Suc.prems show ?thesis by simp
  next
    case False
    show ?thesis
    proof (cases "run_node env n st")
      case (Inl e)
      with Suc.prems False show ?thesis by (simp add: run_graph_Suc)
    next
      case (Inr cmd)
      with Suc.prems False obtain rest where
        rest: "run_graph env fuel (goto cmd) (apply_command st cmd) = Some (r, rest)"
        and cmds: "cmds = cmd # rest"
        by (auto simp: run_graph_Suc split: option.splits)
      from run_node_Inr[OF Inr False] Suc.IH[OF rest] cmds show ?thesis by simp
    qed
  qed
qed

lemma run_graph_last:
  "run_graph env fuel n st = Some (Inr final, cmds) \<Longrightarrow> n \<noteq> END \<Longrightarrow>
     cmds \<noteq> [] \<and> (\<exists>c. last cmds = Command [AIMessage c []] END)"
proof (induction fuel arbitrary: n st cmds)
  case 0
  then show ?case by (cases n) simp_all
next
  case (Suc fuel)
  from Suc.prems obtain cmd rest where
    node: "run_node env n st = Inr cmd"
    and rest: "run_graph env fuel (goto cmd) (apply_command st cmd) = Some (Inr final, rest)"
    and cmds: "cmds = cmd # rest"
    by (auto simp: run_graph_Suc split: sum.splits option.splits)
  show ?case
  proof (cases "goto cmd = END")
    case True
    with rest have "rest = []" by simp
    with run_node_Inr[OF node Suc.prems(2)] True cmds show ?thesis by auto
  next
    case False
    from Suc.IH[OF rest False] cmds show ?thesis by simp
  qed
qed

subsection \<open>What the stream yields\<close>

lemma stream_except_trace:
  "stream_except out e w = Some ((map content_of out, Some e), log_event ERROR ''Error in stream processing'' w)"
  by (simp add: stream_except_def)

lemma turn_tokens:
  assumes eg: "ensure_graph env w = (Inr (), w1)"
    and rm: "get_relevant_memory env uid q w1 = (found, w2)"
  shows "\<exists>evs. trace (record_steps g sid True st0 cmds (put_checkpoint g sid st0 w2)) = trace w @ evs
           \<and> tokens_of evs = map content_of (concat (map update cmds))"
proof -
  from ensure_graph_logs[OF eg] obtain e1 where e1: "trace w1 = trace w @ e1" "list_all is_log e1"
    by blast
  from get_relevant_memory_logs[OF rm] obtain e2 where e2: "trace w2 = trace w1 @ e2" "list_all is_log e2"
    by blast
  let ?w3 = "put_checkpoint g sid st0 w2"
  obtain e3 where e3: "trace ?w3 = trace w2 @ e3" "tokens_of e3 = []"
  proof (cases "checkpointer_of g")
    case None
    then have "trace ?w3 = trace w2 @ []" by simp
    then show ?thesis using that by simp
  next
    case (Some cp)
    from put_checkpoint_some[OF this, of sid st0 w2]
    have "trace ?w3 = trace w2 @ [CheckpointPut sid st0]" by simp
    then show ?thesis using that by simp
  qed
  from record_steps_tokens[of g sid True st0 cmds ?w3] obtain e4 where
    e4: "trace (record_steps g sid True st0 cmds ?w3) = trace ?w3 @ e4"
        "tokens_of e4 = map content_of (concat (map update cmds))"
    by auto
  have "trace (record_steps g sid True st0 cmds ?w3) = trace w @ (e1 @ e2 @ e3 @ e4)"
    using e1 e2 e3 e4 by simp
  moreover have "tokens_of (e1 @ e2 @ e3 @ e4) = map content_of (concat (map update cmds))"
    using logs_no_tokens[OF e1(2)] logs_no_tokens[OF e2(2)] e3 e4 by simp
  ultimately show ?thesis by blast
qed

text \<open>
  What the loop of \<^verbatim>\<open>get_stream_response\<close> hands over. It yields the content of every
  item the runtime passes to it and inspects neither the node nor the kind of the
  message; so the caller receives the contents of all messages the nodes produced, in
  the order of the steps, whatever way the run ends.
\<close>

lemma stream_hands_over_node_outputs:
  assumes "ensure_graph env w = (Inr (), w1)" and "graph w1 = Some g"
      and "msgs \<noteq> []" and "coerce_messages msgs = Inr new"
      and "found = fst (get_relevant_memory env uid (content (last msgs)) w)"
      and "run_graph env fuel Chat
             \<lparr>messages = prior_messages g sid w @ new,
              long_term_memory = (if found \<noteq> [] then found else ''No relevant memory found.'')\<rparr>
           = Some (r, cmds)"
  shows "(\<exists>err w' evs.
            get_stream_response env fuel msgs sid uid w
              = Some ((map content_of (concat (map update cmds)), err), w')
          \<and> trace w' = trace w @ evs
          \<and> tokens_of evs = map content_of (concat (map update cmds)))
       \<and> list_all (\<lambda>m. openai_role m = Assistant \<or> openai_role m = Tool) (concat (map update cmds))
       \<and> (\<forall>final. r = Inr final \<longrightarrow>
             messages final = prior_messages g sid w @ new @ concat (map update cmds)
           \<and> cmds \<noteq> [] \<and> (\<exists>c. last cmds = Command [AIMessage c []] END))"
proof (intro conjI allI impI)
  let ?q = "content (last msgs)"
  let ?st0 = "\<lparr>messages = prior_messages g sid w @ new,
               long_term_memory = (if found \<noteq> [] then found else ''No relevant memory found.'')\<rparr>"
  let ?tokens = "map content_of (concat (map update cmds))"
  obtain f2 w2 where rm: "get_relevant_memory env uid ?q w1 = (f2, w2)"
    by (cases "get_relevant_memory env uid ?q w1")
  from ensure_graph_frame[OF assms(1)] have m: "memory w1 = memory w"
    and c1: "checkpoints w1 = checkpoints w" by simp_all
  from get_relevant_memory_memory[OF m, of env uid ?q] rm assms(5) have f2: "f2 = found" by simp
  from get_relevant_memory_frame[OF rm] assms(2) c1
  have g2: "graph w2 = Some g" and c2: "checkpoints w2 = checkpoints w" by simp_all
  from c2 have pm: "prior_messages g sid w2 = prior_messages g sid w" by (rule prior_messages_cong)
  let ?w3 = "record_steps g sid True ?st0 cmds (put_checkpoint g sid ?st0 w2)"
  have as: "astream env g sid fuel (dump_messages msgs)
              (if found \<noteq> [] then found else ''No relevant memory found.'') w2
            = Some (r, concat (map update cmds), ?w3)"
    using assms(4,6) pm by (simp add: astream_def invoke_graph_def dump_messages_def Let_def)
  from turn_tokens[OF assms(1) rm[unfolded f2], of g sid ?st0 cmds] obtain evs where
    evs: "trace ?w3 = trace w @ evs" "tokens_of evs = ?tokens" by blast
  have res: "\<exists>err w' more. get_stream_response env fuel msgs sid uid w = Some ((?tokens, err), w')
                 \<and> trace w' = trace ?w3 @ more \<and> tokens_of more = []"
  proof (cases r)
    case (Inl e)
    with as assms(1,3) rm f2 g2
    have "get_stream_response env fuel msgs sid uid w
            = Some ((?tokens, Some e), log_event ERROR ''Error in stream processing'' ?w3)"
      by (simp add: get_stream_response_def Let_def stream_except_def)
    then show ?thesis by (intro exI[of _ "Some e"] exI[of _ "log_event ERROR ''Error in stream processing'' ?w3"]
                               exI[of _ "[Log ERROR ''Error in stream processing'']"]) simp
  next
    case (Inr final)
    show ?thesis
    proof (cases "get_state g sid ?w3")
      case (Inl e)
      with Inr as assms(1,3) rm f2 g2
      have "get_stream_response env fuel msgs sid uid w
            = Some ((?tokens, Some e), log_event ERROR ''Error in stream processing'' ?w3)"
        by (simp add: get_stream_response_def Let_def stream_except_def)
      then show ?thesis by (intro exI[of _ "Some e"] exI[of _ "log_event ERROR ''Error in stream processing'' ?w3"]
                               exI[of _ "[Log ERROR ''Error in stream processing'']"]) simp
    next
      case gs: (Inr snapshot)
      show ?thesis
      proof (cases snapshot)
        case None
        with gs Inr as assms(1,3) rm f2 g2
        have "get_stream_response env fuel msgs sid uid w = Some ((?tokens, None), ?w3)"
          by (simp add: get_stream_response_def Let_def)
        then show ?thesis by (intro exI[of _ None] exI[of _ ?w3] exI[of _ "[]"]) simp
      next
        case (Some snap)
        with gs Inr as assms(1,3) rm f2 g2
        have "get_stream_response env fuel msgs sid uid w
                = Some ((?tokens, None), schedule_memory_update env uid sid (messages snap) ?w3)"
          by (simp add: get_stream_response_def Let_def)
        then show ?thesis
          by (intro exI[of _ None] exI[of _ "schedule_memory_update env uid sid (messages snap) ?w3"]
                    exI[of _ "[TaskCreated (UpdateLongTermMemory uid (convert_to_openai_messages (messages snap))
                                 (Metadata uid sid (ENVIRONMENT env) (DEBUG env)))]"])
             (simp add: schedule_memory_update_def)
      qed
    qed
  qed
  then obtain err w' more where
    "get_stream_response env fuel msgs sid uid w = Some ((?tokens, err), w')"
    "trace w' = trace ?w3 @ more" "tokens_of more = []" by blast
  with evs show "\<exists>err w' evs.
            get_stream_response env fuel msgs sid uid w = Some ((?tokens, err), w')
          \<and> trace w' = trace w @ evs \<and> tokens_of evs = ?tokens"
    by (intro exI[of _ err] exI[of _ w'] exI[of _ "evs @ more"]) simp
next
  from run_graph_generated[OF assms(6)]
  show "list_all (\<lambda>m. openai_role m = Assistant \<or> openai_role m = Tool) (concat (map update cmds))" .
next
  fix final assume r: "r = Inr final"
  from run_graph_final[OF assms(6)[unfolded r]]
  show "messages final = prior_messages g sid w @ new @ concat (map update cmds)"
    by (simp add: foldl_apply_command)
  from run_graph_last[OF assms(6)[unfolded r]]
  show "cmds \<noteq> []" and "\<exists>c. last cmds = Command [AIMessage c []] END" by simp_all
qed

lemma stream_hands_over_node_outputs_example:
  "fst (the (get_stream_response weather_env 5 weather_question ''S1'' (Some ''u1'') initial_world))
     = ([Str [], Str ''18C, cloudy'', Str ''It is 18C and cloudy in Paris.''], None)
   \<and> last weather_commands = Command [AIMessage (Str ''It is 18C and cloudy in Paris.'') []] END"
proof -
  let ?s = "get_stream_response weather_env 5 weather_question ''S1'' (Some ''u1'') initial_world"
  let ?w1 = "snd (ensure_graph weather_env initial_world)"
  let ?g = "CompiledStateGraph (Some MongoDBSaver)"
  have "fst (ensure_graph weather_env initial_world) = Inr ()" by code_simp
  then have 1: "ensure_graph weather_env initial_world = (Inr (), ?w1)" by (simp add: prod_eq_iff)
  have 2: "graph ?w1 = Some ?g" by code_simp
  have 3: "weather_question \<noteq> []" by (simp add: weather_question_def)
  have 4: "coerce_messages weather_question = Inr [HumanMessage (Str ''What is the weather?'')]"
    by (simp add: weather_question_def)
  have 5: "[] = fst (get_relevant_memory weather_env (Some ''u1'') (content (last weather_question))
                  initial_world)"
    by code_simp
  have 6: "run_graph weather_env 5 Chat
             \<lparr>messages = prior_messages ?g ''S1'' initial_world @ [HumanMessage (Str ''What is the weather?'')],
              long_term_memory = (if [] \<noteq> [] then [] else ''No relevant memory found.'')\<rparr>
           = Some (Inr weather_final, weather_commands)"
    by code_simp
  have 7: "map content_of (concat (map update weather_commands))
            = [Str [], Str ''18C, cloudy'', Str ''It is 18C and cloudy in Paris.'']"
    by (simp add: weather_commands_def)
  have 8: "snd (fst (the ?s)) = None" by code_simp
  from stream_hands_over_node_outputs[OF 1 2 3 4 5 6]
  obtain err w' where "?s = Some ((map content_of (concat (map update weather_commands)), err), w')"
    and "\<exists>c. last weather_commands = Command [AIMessage c []] END"
    by blast
  with 7 8 show ?thesis by (auto simp: weather_commands_def)
qed

text \<open>
  C6 does not hold of the code, and the code departs here from its own documentation:
  the docstring of \<^verbatim>\<open>get_stream_response\<close> promises \<^verbatim>\<open>Yields: str: Tokens of the LLM
  response\<close>. In a turn with one tool-call round the caller of the stream receives the
  text of the assistant message that requests the tool, then the raw result of the
  tool, which is no token of the language model, and only then the final reply. For
  the same input \<^verbatim>\<open>get_response\<close> returns the user and assistant messages and leaves
  the result of the tool out.
\<close>

theorem stream_yields_tool_round:
  "fst (the (get_stream_response chatty_env 5 weather_question ''S1'' (Some ''u1'') initial_world))
     = ([Str ''Let me check.'', Str ''18C, cloudy'', Str ''It is 18C and cloudy in Paris.''], None)
   \<and> fst (the (get_response chatty_env 5 weather_question ''S1'' (Some ''u1'') initial_world))
     = Inr [\<lparr>role = User, content = ''What is the weather?''\<rparr>,
            \<lparr>role = Assistant, content = ''Let me check.''\<rparr>,
            \<lparr>role = Assistant, content = ''It is 18C and cloudy in Paris.''\<rparr>]"
  by code_simp


subsection \<open>Degraded mode in the streaming path\<close>

text \<open>
  After its loop \<^verbatim>\<open>get_stream_response\<close> reads the state back with \<^verbatim>\<open>get_state\<close>
  (line 403), and the runtime refuses that on a graph compiled without checkpointer.
  So in production, after the construction of the checkpointer failed, a stream whose
  run reaches its end hands over all its tokens and then raises; no stream ends
  normally.
\<close>

lemma degraded_stream_ends_with_exception:
  assumes "graph w = None" and "checkpointer w = None" and "mongodb_saver env = Some e"
      and "ENVIRONMENT env = PRODUCTION"
      and "msgs \<noteq> []" and "coerce_messages msgs = Inr new"
      and "run_graph env fuel Chat
             \<lparr>messages = new, long_term_memory = relevant_memory_text env uid w msgs\<rparr>
           = Some (Inr final, cmds)"
  shows "\<exists>w'. get_stream_response env fuel msgs sid uid w
           = Some ((map content_of (concat (map update cmds)),
                    Some (ValueError ''No checkpointer set'')), w')"
proof -
  let ?g = "CompiledStateGraph None"
  let ?q = "content (last msgs)"
  obtain w1 where eg: "ensure_graph env w = (Inr (), w1)" and g: "graph w1 = Some ?g"
    using ensure_graph_degraded[OF assms(1-4)] by simp
  obtain found w2 where rm: "get_relevant_memory env uid ?q w1 = (found, w2)"
    by (cases "get_relevant_memory env uid ?q w1")
  from ensure_graph_frame[OF eg] have m: "memory w1 = memory w" by simp
  from get_relevant_memory_memory[OF m, of env uid ?q] rm
  have "fst (get_relevant_memory env uid ?q w) = found" by simp
  then have mt: "relevant_memory_text env uid w msgs
                   = (if found \<noteq> [] then found else ''No relevant memory found.'')"
    by (simp add: relevant_memory_text_def)
  from get_relevant_memory_frame[OF rm] g have g2: "graph w2 = Some ?g" by simp
  let ?st0 = "\<lparr>messages = new,
               long_term_memory = (if found \<noteq> [] then found else ''No relevant memory found.'')\<rparr>"
  from assms(7) mt have run: "run_graph env fuel Chat ?st0 = Some (Inr final, cmds)" by simp
  have as: "astream env ?g sid fuel (dump_messages msgs)
              (if found \<noteq> [] then found else ''No relevant memory found.'') w2
            = Some (Inr final, concat (map update cmds),
                    record_steps ?g sid True ?st0 cmds (put_checkpoint ?g sid ?st0 w2))"
    using assms(6) run
    by (simp add: astream_def invoke_graph_def dump_messages_def prior_messages_def Let_def)
  show ?thesis
    using eg assms(5) rm g2 as
    by (simp add: get_stream_response_def Let_def stream_except_def get_state_def)
qed

lemma degraded_stream_never_ends_normally:
  assumes "graph w = None" and "checkpointer w = None" and "mongodb_saver env = Some e"
      and "ENVIRONMENT env = PRODUCTION"
  shows "get_stream_response env fuel msgs sid uid w \<noteq> Some ((tokens, None), w')"
proof
  assume "get_stream_response env fuel msgs sid uid w = Some ((tokens, None), w')"
  from get_stream_response_ok[OF this] obtain w1 g cp where
    "ensure_graph env w = (Inr (), w1)" "graph w1 = Some g" "checkpointer_of g = Some cp"
    by blast
  with ensure_graph_degraded[OF assms] show False by auto
qed

text \<open>
  C4 holds of \<^verbatim>\<open>get_response\<close> (see \<open>Degraded mode\<close> above) and fails for the other
  way to run a turn. In production, with the construction of the checkpointer failing,
  \<^verbatim>\<open>_get_checkpointer\<close> logs that it continues without checkpointer; the streamed
  turn of the scenario then hands over its tokens and raises
  \<^verbatim>\<open>ValueError('No checkpointer set')\<close>, where the single-shot turn on the same input
  returns its reply; reading the history afterwards raises the same error.
\<close>

theorem degraded_stream_raises_after_tokens:
  "fst (the (get_stream_response degraded_env 5 weather_question ''S1'' (Some ''u1'') initial_world))
     = ([Str [], Str ''18C, cloudy'', Str ''It is 18C and cloudy in Paris.''],
        Some (ValueError ''No checkpointer set''))
   \<and> fst (the (get_response degraded_env 5 weather_question ''S1'' (Some ''u1'') initial_world))
     = Inr [\<lparr>role = User, content = ''What is the weather?''\<rparr>,
            \<lparr>role = Assistant, content = ''It is 18C and cloudy in Paris.''\<rparr>]
   \<and> fst (get_chat_history degraded_env ''S1''
        (snd (the (get_response degraded_env 5 weather_question ''S1'' (Some ''u1'') initial_world))))
     = Inl (ValueError ''No checkpointer set'')"
  by code_simp


subsection \<open>History over several turns\<close>

lemma process_coerced:
  "coerce_messages msgs = Inr new \<Longrightarrow>
     process_messages env new = filter (\<lambda>m. (role m = User \<or> role m = Assistant) \<and> content m \<noteq> []) msgs"
proof (induction msgs arbitrary: new)
  case Nil
  then show ?case by (simp add: process_messages_filter)
next
  case (Cons m msgs)
  from Cons.prems obtain x xs where x: "coerce_message m = Inr x"
    and xs: "coerce_messages msgs = Inr xs" and new: "new = x # xs"
    by (auto split: sum.splits)
  from x have "process_messages env [x] =
      (if (role m = User \<or> role m = Assistant) \<and> content m \<noteq> [] then [m] else [])"
    by (cases m; cases "role m") (auto simp: process_messages_filter)
  with Cons.IH[OF xs] new process_messages_append[of env "[x]" xs] show ?case by simp
qed

lemma process_generated:
  "list_all (\<lambda>m. openai_role m = Assistant \<or> openai_role m = Tool) gen \<Longrightarrow>
     process_messages env gen =
       map (\<lambda>m. \<lparr>role = Assistant, content = py_str env (openai_content (content_of m))\<rparr>)
         (filter (\<lambda>m. openai_role m = Assistant \<and> truthy (openai_content (content_of m))) gen)"
  by (induction gen) (auto simp: process_messages_filter)

lemma get_chat_history_persistent:
  assumes "graph w = Some g" and "checkpointer_of g \<noteq> None"
  shows "get_chat_history env sid w = (Inr (process_messages env (prior_messages g sid w)), w)"
proof -
  from assms(1) have eg: "ensure_graph env w = (Inr (), w)" by (simp add: ensure_graph_def)
  from assms(2) obtain cp where cp: "checkpointer_of g = Some cp" by auto
  have "process_messages env [] = []" by (simp add: process_messages_filter)
  with eg assms(1) cp show ?thesis
    by (simp add: get_chat_history_def get_state_def prior_messages_def split: option.splits)
qed

lemma get_response_turn:
  assumes "get_response env fuel msgs sid uid w = Some (Inr reply, w')"
  shows "\<exists>g new gen. graph w' = Some g \<and> (graph w \<noteq> None \<longrightarrow> graph w = Some g)
          \<and> coerce_messages msgs = Inr new
          \<and> list_all (\<lambda>m. openai_role m = Assistant \<or> openai_role m = Tool) gen
          \<and> reply = process_messages env (prior_messages g sid w @ new @ gen)
          \<and> (checkpointer_of g \<noteq> None \<longrightarrow>
                prior_messages g sid w' = prior_messages g sid w @ new @ gen)"
proof -
  from get_response_Inr[OF assms] obtain w1 g found w2 new final cmds st0 where
    eg: "ensure_graph env w = (Inr (), w1)" and g: "graph w1 = Some g"
    and rm: "get_relevant_memory env uid (content (last msgs)) w1 = (found, w2)"
    and co: "coerce_messages msgs = Inr new"
    and st0: "st0 = \<lparr>messages = prior_messages g sid w @ new,
                   long_term_memory = (if found \<noteq> [] then found else ''No relevant memory found.'')\<rparr>"
    and run: "run_graph env fuel Chat st0 = Some (Inr final, cmds)"
    and reply: "reply = process_messages env (messages final)"
    and w': "w' = schedule_memory_update env uid sid (messages final)
                  (record_steps g sid False st0 cmds (put_checkpoint g sid st0 w2))"
    by blast
  let ?gen = "concat (map update cmds)"
  from run_graph_final[OF run] st0
  have fin: "messages final = prior_messages g sid w @ new @ ?gen"
    by (simp add: foldl_apply_command)
  from get_relevant_memory_frame[OF rm] g have g2: "graph w2 = Some g" by simp
  have a: "graph w' = Some g" using w' g2 by (simp add: schedule_memory_update_def)
  have b: "graph w \<noteq> None \<longrightarrow> graph w = Some g"
    using ensure_graph_Inr[OF eg] g by auto
  have c: "checkpointer_of g \<noteq> None \<longrightarrow> prior_messages g sid w' = prior_messages g sid w @ new @ ?gen"
  proof
    assume cp: "checkpointer_of g \<noteq> None"
    from turn_events[OF eg rm run, of g sid False] cp
    have "latest (record_steps g sid False st0 cmds (put_checkpoint g sid st0 w2)) sid = Some final"
      by blast
    then have "latest w' sid = Some final" using w' by simp
    with cp fin show "prior_messages g sid w' = prior_messages g sid w @ new @ ?gen"
      by (auto simp: prior_messages_def)
  qed
  from a b co run_graph_generated[OF run] reply fin c show ?thesis
    by (intro exI[of _ g] exI[of _ new] exI[of _ ?gen]) simp
qed

lemma run_turns_graph:
  "run_turns env fuel sid uid turns w0 = Some (replies, w) \<Longrightarrow> graph w0 = Some g \<Longrightarrow>
     graph w = Some g"
proof (induction turns arbitrary: w0 replies)
  case Nil
  then show ?case by simp
next
  case (Cons msgs rest)
  from Cons.prems(1) obtain reply w1 replies' where
    r: "get_response env fuel msgs sid uid w0 = Some (Inr reply, w1)"
    and rest: "run_turns env fuel sid uid rest w1 = Some (replies', w)"
    by (auto split: option.splits sum.splits prod.splits)
  from get_response_turn[OF r] Cons.prems(2) have "graph w1 = Some g" by auto
  from Cons.IH[OF rest this] show ?case .
qed

text \<open>The memory text of a turn does not depend on what the turns before it stored.\<close>

lemma relevant_memory_try_available:
  "(memory w' \<noteq> None \<or> memory_from_config env = None)
     = (memory w \<noteq> None \<or> memory_from_config env = None) \<Longrightarrow>
   fst (relevant_memory_try env uid q w') = fst (relevant_memory_try env uid q w)"
  by (auto simp: relevant_memory_try_def long_term_memory_client_def
           split: option.splits sum.splits)

lemma get_relevant_memory_available:
  "get_relevant_memory env uid q w = (found, w2) \<Longrightarrow>
     (memory w2 \<noteq> None \<or> memory_from_config env = None)
       = (memory w \<noteq> None \<or> memory_from_config env = None)"
  by (auto simp: get_relevant_memory_def relevant_memory_try_def long_term_memory_client_def
           split: option.splits sum.splits prod.splits)

lemma relevant_memory_text_available:
  assumes "(memory w' \<noteq> None \<or> memory_from_config env = None)
             = (memory w \<noteq> None \<or> memory_from_config env = None)"
  shows "relevant_memory_text env uid w' = relevant_memory_text env uid w"
proof
  fix msgs
  note e = relevant_memory_try_available[OF assms, of uid "content (last msgs)"]
  show "relevant_memory_text env uid w' msgs = relevant_memory_text env uid w msgs"
    unfolding relevant_memory_text_def get_relevant_memory_fst e ..
qed

lemma get_response_turn_run:
  assumes "get_response env fuel msgs sid uid w = Some (Inr reply, w')"
  shows "\<exists>g new final cmds.
           graph w' = Some g \<and> (graph w \<noteq> None \<longrightarrow> graph w = Some g)
         \<and> coerce_messages msgs = Inr new
         \<and> run_graph env fuel Chat
              \<lparr>messages = prior_messages g sid w @ new,
               long_term_memory = relevant_memory_text env uid w msgs\<rparr> = Some (Inr final, cmds)
         \<and> reply = process_messages env (messages final)
         \<and> (checkpointer_of g \<noteq> None \<longrightarrow> prior_messages g sid w' = messages final)
         \<and> relevant_memory_text env uid w' = relevant_memory_text env uid w"
proof -
  from get_response_Inr[OF assms] obtain w1 g found w2 new final cmds st0 where
    eg: "ensure_graph env w = (Inr (), w1)" and g: "graph w1 = Some g"
    and rm: "get_relevant_memory env uid (content (last msgs)) w1 = (found, w2)"
    and co: "coerce_messages msgs = Inr new"
    and st0: "st0 = \<lparr>messages = prior_messages g sid w @ new,
                   long_term_memory = (if found \<noteq> [] then found else ''No relevant memory found.'')\<rparr>"
    and run: "run_graph env fuel Chat st0 = Some (Inr final, cmds)"
    and reply: "reply = process_messages env (messages final)"
    and w': "w' = schedule_memory_update env uid sid (messages final)
                  (record_steps g sid False st0 cmds (put_checkpoint g sid st0 w2))"
    by blast
  from ensure_graph_frame[OF eg] have m1: "memory w1 = memory w" by simp
  from get_relevant_memory_memory[OF m1, of env uid "content (last msgs)"] rm
  have "fst (get_relevant_memory env uid (content (last msgs)) w) = found" by simp
  then have mt: "relevant_memory_text env uid w msgs
                    = (if found \<noteq> [] then found else ''No relevant memory found.'')"
    by (simp add: relevant_memory_text_def)
  from get_relevant_memory_frame[OF rm] g have g2: "graph w2 = Some g" by simp
  have a: "graph w' = Some g" using w' g2 by (simp add: schedule_memory_update_def)
  have b: "graph w \<noteq> None \<longrightarrow> graph w = Some g"
    using ensure_graph_Inr[OF eg] g by auto
  have c: "checkpointer_of g \<noteq> None \<longrightarrow> prior_messages g sid w' = messages final"
  proof
    assume cp: "checkpointer_of g \<noteq> None"
    from turn_events[OF eg rm run, of g sid False] cp
    have "latest (record_steps g sid False st0 cmds (put_checkpoint g sid st0 w2)) sid = Some final"
      by blast
    then have "latest w' sid = Some final" using w' by simp
    with cp show "prior_messages g sid w' = messages final"
      by (auto simp: prior_messages_def)
  qed
  have "memory w' = memory w2" using w' by (simp add: schedule_memory_update_def)
  with get_relevant_memory_available[OF rm] m1
  have "(memory w' \<noteq> None \<or> memory_from_config env = None)
          = (memory w \<noteq> None \<or> memory_from_config env = None)" by simp
  from relevant_memory_text_available[OF this]
  have d: "relevant_memory_text env uid w' = relevant_memory_text env uid w" .
  from run st0 mt have run': "run_graph env fuel Chat
              \<lparr>messages = prior_messages g sid w @ new,
               long_term_memory = relevant_memory_text env uid w msgs\<rparr> = Some (Inr final, cmds)"
    by simp
  from a b co run' reply c d show ?thesis
    by (intro exI[of _ g] exI[of _ new] exI[of _ final] exI[of _ cmds]) simp
qed

lemma run_turns_outputs:
  assumes "run_turns env fuel sid uid turns w0 = Some (replies, w)"
      and "graph w = Some g" and "checkpointer_of g \<noteq> None"
  shows "\<exists>outs.
           turn_outputs env fuel (relevant_memory_text env uid w0) (prior_messages g sid w0) turns
             = Some outs
         \<and> prior_messages g sid w
             = prior_messages g sid w0 @ concat (map (\<lambda>out. fst out @ snd out) outs)
         \<and> (turns \<noteq> [] \<longrightarrow> last replies = process_messages env (prior_messages g sid w))"
  using assms(1)
proof (induction turns arbitrary: w0 replies)
  case Nil
  then show ?case by simp
next
  case (Cons msgs rest)
  from Cons.prems obtain reply w1 replies' where
    r: "get_response env fuel msgs sid uid w0 = Some (Inr reply, w1)"
    and rest: "run_turns env fuel sid uid rest w1 = Some (replies', w)"
    and replies: "replies = reply # replies'"
    by (auto split: option.splits sum.splits prod.splits)
  from get_response_turn_run[OF r] obtain g1 new final cmds where
    g1: "graph w1 = Some g1" and co: "coerce_messages msgs = Inr new"
    and run: "run_graph env fuel Chat
              \<lparr>messages = prior_messages g1 sid w0 @ new,
               long_term_memory = relevant_memory_text env uid w0 msgs\<rparr> = Some (Inr final, cmds)"
    and reply: "reply = process_messages env (messages final)"
    and pm: "checkpointer_of g1 \<noteq> None \<longrightarrow> prior_messages g1 sid w1 = messages final"
    and same: "relevant_memory_text env uid w1 = relevant_memory_text env uid w0"
    by blast
  from run_turns_graph[OF rest g1] assms(2) have gg: "g1 = g" by simp
  with pm assms(3) have pm1: "prior_messages g sid w1 = messages final" by simp
  from run_graph_final[OF run] gg
  have fin: "messages final = prior_messages g sid w0 @ new @ concat (map update cmds)"
    by (simp add: foldl_apply_command)
  from Cons.IH[OF rest] obtain outs where
    ih: "turn_outputs env fuel (relevant_memory_text env uid w1) (prior_messages g sid w1) rest
           = Some outs"
        "prior_messages g sid w
           = prior_messages g sid w1 @ concat (map (\<lambda>out. fst out @ snd out) outs)"
        "rest \<noteq> [] \<longrightarrow> last replies' = process_messages env (prior_messages g sid w)"
    by blast
  have step: "turn_outputs env fuel (relevant_memory_text env uid w0) (prior_messages g sid w0)
              (msgs # rest) = Some ((new, concat (map update cmds)) # outs)"
    using co run gg ih(1) same pm1 by simp
  have l: "last replies = process_messages env (prior_messages g sid w)"
  proof (cases "rest = []")
    case True
    with rest replies reply pm1 show ?thesis by simp
  next
    case False
    with rest have "replies' \<noteq> []" by (cases rest) (auto split: option.splits sum.splits prod.splits)
    with ih(3) False replies show ?thesis by simp
  qed
  from step ih(2) pm1 fin l show ?case
    by (intro exI[of _ "(new, concat (map update cmds)) # outs"]) simp
qed

lemma turn_outputs_shape:
  "turn_outputs env fuel mem before turns = Some outs \<Longrightarrow>
     list_all2 (\<lambda>msgs out. coerce_messages msgs = Inr (fst out)
                  \<and> list_all (\<lambda>m. openai_role m = Assistant \<or> openai_role m = Tool) (snd out))
       turns outs"
proof (induction turns arbitrary: before outs)
  case Nil
  then show ?case by simp
next
  case (Cons msgs rest)
  from Cons.prems obtain new final cmds outs' where
    co: "coerce_messages msgs = Inr new"
    and run: "run_graph env fuel Chat \<lparr>messages = before @ new, long_term_memory = mem msgs\<rparr>
                = Some (Inr final, cmds)"
    and rest: "turn_outputs env fuel mem (messages final) rest = Some outs'"
    and outs: "outs = (new, concat (map update cmds)) # outs'"
    by (auto split: sum.splits option.splits prod.splits)
  from Cons.IH[OF rest] run_graph_generated[OF run] co outs show ?case by simp
qed

lemma process_outputs:
  "list_all2 (\<lambda>msgs out. coerce_messages msgs = Inr (fst out)
                  \<and> list_all (\<lambda>m. openai_role m = Assistant \<or> openai_role m = Tool) (snd out))
     turns outs \<Longrightarrow>
   process_messages env (concat (map (\<lambda>out. fst out @ snd out) outs))
     = concat (map2 (\<lambda>msgs out.
         filter (\<lambda>m. (role m = User \<or> role m = Assistant) \<and> content m \<noteq> []) msgs
         @ map (\<lambda>m. \<lparr>role = Assistant, content = py_str env (openai_content (content_of m))\<rparr>)
             (filter (\<lambda>m. openai_role m = Assistant \<and> truthy (openai_content (content_of m)))
                (snd out)))
         turns outs)"
proof (induction turns arbitrary: outs)
  case Nil
  then show ?case by (simp add: process_messages_filter)
next
  case (Cons msgs turns)
  from Cons.prems obtain out outs' where
    o: "outs = out # outs'" "coerce_messages msgs = Inr (fst out)"
       "list_all (\<lambda>m. openai_role m = Assistant \<or> openai_role m = Tool) (snd out)"
       "list_all2 (\<lambda>msgs out. coerce_messages msgs = Inr (fst out)
                  \<and> list_all (\<lambda>m. openai_role m = Assistant \<or> openai_role m = Tool) (snd out))
          turns outs'"
    by (cases outs) auto
  from Cons.IH[OF o(4)] o(1) process_coerced[OF o(2), of env] process_generated[OF o(3), of env]
  show ?case by (simp add: process_messages_append)
qed

text \<open>
  C5, as stated, fails: after the scenario's turn the session holds two assistant
  messages, and the history returns one; the assistant message that only carries the
  tool call has empty content and is left out.
\<close>

theorem history_drops_tool_calling_assistant_counterexample:
  "map openai_role (messages (the (latest
       (snd (the (run_turns weather_env 5 ''S1'' (Some ''u1'') [weather_question] initial_world)))
       ''S1'')))
     = [User, Assistant, Tool, Assistant]
   \<and> fst (get_chat_history weather_env ''S1''
       (snd (the (run_turns weather_env 5 ''S1'' (Some ''u1'') [weather_question] initial_world))))
     = Inr [\<lparr>role = User, content = ''What is the weather?''\<rparr>,
            \<lparr>role = Assistant, content = ''It is 18C and cloudy in Paris.''\<rparr>]"
  by code_simp

text \<open>
  C5, amended. For a session without earlier snapshot and a graph with checkpointer:
  after the turns succeeded, each turn's run of the graph, started on the messages of
  the turns before it followed by the submitted ones, ended in a final state, and
  \<^verbatim>\<open>get_chat_history\<close> returns, turn by turn in the order of submission, the submitted
  user and assistant messages whose text is not empty, as submitted, followed by those
  assistant messages among the ones that run generated whose content is not empty,
  each with the text \<^verbatim>\<open>str\<close> gives for its OpenAI content. System and tool messages
  and messages with empty content, such as an assistant message that only carries
  tool calls, are left out. The result is the list the last \<^verbatim>\<open>get_response\<close>
  returned: both go through \<^verbatim>\<open>__process_messages\<close>.
\<close>

theorem history_after_turns:
  assumes "run_turns env fuel sid uid turns w0 = Some (replies, w)" and "turns \<noteq> []"
      and "latest w0 sid = None"
      and "graph w = Some g" and "checkpointer_of g \<noteq> None"
  shows "\<exists>outs.
           turn_outputs env fuel (relevant_memory_text env uid w0) [] turns = Some outs
         \<and> get_chat_history env sid w =
             (Inr (concat (map2 (\<lambda>msgs out.
                     filter (\<lambda>m. (role m = User \<or> role m = Assistant) \<and> content m \<noteq> []) msgs
                     @ map (\<lambda>m. \<lparr>role = Assistant,
                                  content = py_str env (openai_content (content_of m))\<rparr>)
                         (filter (\<lambda>m. openai_role m = Assistant
                                       \<and> truthy (openai_content (content_of m))) (snd out)))
                   turns outs)), w)
         \<and> fst (get_chat_history env sid w) = Inr (last replies)"
proof -
  from assms(3) have p0: "prior_messages g sid w0 = []"
    by (simp add: prior_messages_def split: option.splits)
  from run_turns_outputs[OF assms(1,4,5)] assms(2) p0 obtain outs where
    outs: "turn_outputs env fuel (relevant_memory_text env uid w0) [] turns = Some outs"
    and pm: "prior_messages g sid w = concat (map (\<lambda>out. fst out @ snd out) outs)"
    and l: "last replies = process_messages env (prior_messages g sid w)"
    by auto
  note sh = turn_outputs_shape[OF outs]
  from get_chat_history_persistent[OF assms(4,5), of env sid] pm process_outputs[OF sh, of env] l
  have "get_chat_history env sid w =
             (Inr (concat (map2 (\<lambda>msgs out.
                     filter (\<lambda>m. (role m = User \<or> role m = Assistant) \<and> content m \<noteq> []) msgs
                     @ map (\<lambda>m. \<lparr>role = Assistant,
                                  content = py_str env (openai_content (content_of m))\<rparr>)
                         (filter (\<lambda>m. openai_role m = Assistant
                                       \<and> truthy (openai_content (content_of m))) (snd out)))
                   turns outs)), w)"
    and "fst (get_chat_history env sid w) = Inr (last replies)"
    by simp_all
  with outs show ?thesis by blast
qed

theorem history_after_turns_witness:
  "fst (get_chat_history weather_env ''S1''
     (snd (the (run_turns weather_env 5 ''S1'' (Some ''u1'')
                  [weather_question, [\<lparr>role = User, content = ''And now?''\<rparr>]] initial_world))))
   = Inr [\<lparr>role = User, content = ''What is the weather?''\<rparr>,
          \<lparr>role = Assistant, content = ''It is 18C and cloudy in Paris.''\<rparr>,
          \<lparr>role = User, content = ''And now?''\<rparr>,
          \<lparr>role = Assistant, content = ''It is 18C and cloudy in Paris.''\<rparr>]
   \<and> turn_outputs weather_env 5 (relevant_memory_text weather_env (Some ''u1'') initial_world) []
        [weather_question, [\<lparr>role = User, content = ''And now?''\<rparr>]]
     = Some [([HumanMessage (Str ''What is the weather?'')],
              [AIMessage (Str []) [ToolCall ''get_weather'' [(''city'', ''Paris'')] ''call_1''],
               ToolMessage (Str ''18C, cloudy'') ''get_weather'' ''call_1'',
               AIMessage (Str ''It is 18C and cloudy in Paris.'') []]),
             ([HumanMessage (Str ''And now?'')],
              [AIMessage (Str ''It is 18C and cloudy in Paris.'') []])]"
proof -
  let ?turns = "[weather_question, [\<lparr>role = User, content = ''And now?''\<rparr>]]"
  let ?x = "run_turns weather_env 5 ''S1'' (Some ''u1'') ?turns initial_world"
  let ?outs = "[([HumanMessage (Str ''What is the weather?'')],
              [AIMessage (Str []) [ToolCall ''get_weather'' [(''city'', ''Paris'')] ''call_1''],
               ToolMessage (Str ''18C, cloudy'') ''get_weather'' ''call_1'',
               AIMessage (Str ''It is 18C and cloudy in Paris.'') []]),
             ([HumanMessage (Str ''And now?'')],
              [AIMessage (Str ''It is 18C and cloudy in Paris.'') []])]"
  have 1: "?x = Some (fst (the ?x), snd (the ?x))" by code_simp
  have 2: "?turns \<noteq> []" by simp
  have 3: "latest initial_world ''S1'' = None" by code_simp
  have 4: "graph (snd (the ?x)) = Some (CompiledStateGraph (Some MongoDBSaver))" by code_simp
  have 5: "checkpointer_of (CompiledStateGraph (Some MongoDBSaver)) \<noteq> None" by simp
  have 6: "turn_outputs weather_env 5 (relevant_memory_text weather_env (Some ''u1'') initial_world) []
             ?turns = Some ?outs"
    by code_simp
  from history_after_turns[OF 1 2 3 4 5] obtain outs where
    o: "turn_outputs weather_env 5 (relevant_memory_text weather_env (Some ''u1'') initial_world) []
          ?turns = Some outs"
    and h: "get_chat_history weather_env ''S1'' (snd (the ?x)) =
             (Inr (concat (map2 (\<lambda>msgs out.
                     filter (\<lambda>m. (role m = User \<or> role m = Assistant) \<and> content m \<noteq> []) msgs
                     @ map (\<lambda>m. \<lparr>role = Assistant,
                                  content = py_str weather_env (openai_content (content_of m))\<rparr>)
                         (filter (\<lambda>m. openai_role m = Assistant
                                       \<and> truthy (openai_content (content_of m))) (snd out)))
                   ?turns outs)), snd (the ?x))"
    by blast
  from o 6 have "outs = ?outs" by simp
  with h have "fst (get_chat_history weather_env ''S1'' (snd (the ?x)))
     = Inr [\<lparr>role = User, content = ''What is the weather?''\<rparr>,
          \<lparr>role = Assistant, content = ''It is 18C and cloudy in Paris.''\<rparr>,
          \<lparr>role = User, content = ''And now?''\<rparr>,
          \<lparr>role = Assistant, content = ''It is 18C and cloudy in Paris.''\<rparr>]"
    by (simp add: weather_question_def)
  with 6 show ?thesis by blast
qed


end
